theory Spec2Isabelle
  imports Complex_Main
begin

section \<open>Python values used by the route segmentation engine\<close>

text \<open>
  The repository is Python. A float is modelled by its value, a \<^typ>\<open>real\<close>; the arithmetic
  of the duration and cost estimates is rounded to binary64 as Python rounds it, while the
  geographic distance and the coordinate comparison are computed over the reals. NaN and the
  infinities are not modelled. Unbounded integers are \<^typ>\<open>int\<close> or \<^typ>\<open>nat\<close>, and
  strings are \<^typ>\<open>string\<close>, a list of bytes (UTF-8). A dictionary read with
  \<^verbatim>\<open>d.get(key)\<close> is a record whose fields are options: \<open>None\<close> is the absent key.
\<close>

subsection \<open>Strings\<close>

text \<open>\<^verbatim>\<open>str(n)\<close> for a natural number and for an integer.\<close>

definition digit_char :: "nat \<Rightarrow> char" where
  "digit_char d = ''0123456789'' ! d"

fun str_nat :: "nat \<Rightarrow> string" where
  "str_nat n = (if n < 10 then [digit_char n] else str_nat (n div 10) @ [digit_char (n mod 10)])"

declare str_nat.simps [simp del]

definition str_int :: "int \<Rightarrow> string" where
  "str_int i = (if i < 0 then CHR ''-'' # str_nat (nat (- i)) else str_nat (nat i))"

text \<open>
  \<^verbatim>\<open>s.lower()\<close>: the letters A to Z are mapped to a to z. Every other byte is kept; the
  bytes of a non-ASCII character are all above 127, so they never take part in a match
  against the ASCII words searched for below.
\<close>

definition lower_char :: "char \<Rightarrow> char" where
  "lower_char c =
     (case map_of (zip ''ABCDEFGHIJKLMNOPQRSTUVWXYZ'' ''abcdefghijklmnopqrstuvwxyz'') c of
        None \<Rightarrow> c
      | Some d \<Rightarrow> d)"

definition lower :: "string \<Rightarrow> string" where
  "lower s = map lower_char s"

text \<open>\<^verbatim>\<open>needle in hay\<close> on strings: \<open>needle\<close> occurs as a contiguous block.\<close>

fun str_in :: "string \<Rightarrow> string \<Rightarrow> bool" where
  "str_in needle [] = (needle = [])"
| "str_in needle (c # cs) = (take (length needle) (c # cs) = needle \<or> str_in needle cs)"

subsection \<open>Numbers\<close>

text \<open>The nearest integer, a tie going to the even one.\<close>

definition round_half_even :: "real \<Rightarrow> int" where
  "round_half_even x =
     (let f = \<lfloor>x\<rfloor>; d = x - of_int f
      in if d < 1 / 2 then f else if 1 / 2 < d then f + 1 else if even f then f else f + 1)"

text \<open>
  Binary64 arithmetic. \<open>fl x\<close> is the binary64 number nearest to the real \<open>x\<close>, a tie going
  to the even mantissa: with \<open>2 ^ e \<le> |x| < 2 ^ (e + 1)\<close> (and \<open>e\<close> at least -1022, the
  exponent of the subnormal numbers) the mantissa has 53 bits, so the numbers near \<open>x\<close> are
  the multiples of \<open>2 ^ (e - 52)\<close>. Python's \<^verbatim>\<open>+\<close>, \<^verbatim>\<open>*\<close> and \<^verbatim>\<open>/\<close> on floats, and on an
  integer and a float, return the exact result rounded by \<open>fl\<close>; so does \<^verbatim>\<open>/\<close> on two
  integers. A float literal such as \<^verbatim>\<open>0.29\<close> is \<open>fl (29 / 100)\<close>. Results beyond the
  binary64 range are not modelled.
\<close>

definition float_exponent :: "real \<Rightarrow> int" where
  "float_exponent x = max \<lfloor>log 2 \<bar>x\<bar>\<rfloor> (- 1022)"

definition fl :: "real \<Rightarrow> real" where
  "fl x =
     (if x = 0 then 0
      else of_int (round_half_even (x / 2 powr of_int (float_exponent x - 52)))
             * 2 powr of_int (float_exponent x - 52))"

definition fadd :: "real \<Rightarrow> real \<Rightarrow> real" where
  "fadd a b = fl (a + b)"

definition fmul :: "real \<Rightarrow> real \<Rightarrow> real" where
  "fmul a b = fl (a * b)"

definition fdiv :: "real \<Rightarrow> real \<Rightarrow> real" where
  "fdiv a b = fl (a / b)"

text \<open>
  \<^verbatim>\<open>round(x, ndigits)\<close> on a float: the exact value of \<open>x\<close> is rounded to \<open>ndigits\<close>
  decimals, a tie going to the even digit, and the float nearest to that decimal is
  returned. \<^verbatim>\<open>int(x)\<close> truncates towards zero.
\<close>

definition py_round :: "real \<Rightarrow> nat \<Rightarrow> real" where
  "py_round x ndigits = fl (of_int (round_half_even (x * 10 ^ ndigits)) / 10 ^ ndigits)"

definition py_int :: "real \<Rightarrow> int" where
  "py_int x = (if x < 0 then \<lceil>x\<rceil> else \<lfloor>x\<rfloor>)"

text \<open>\<^verbatim>\<open>xs[a:b]\<close> for \<open>0 \<le> a\<close> and \<open>0 \<le> b\<close>.\<close>

definition slice :: "'a list \<Rightarrow> nat \<Rightarrow> nat \<Rightarrow> 'a list" where
  "slice xs a b = take (b - a) (drop a xs)"

section \<open>The itinerary (input of \<^verbatim>\<open>route_segmentation.py\<close>)\<close>

record place =
  place_name :: "string option"
  place_lat :: "real option"
  place_lon :: "real option"

record leg =
  leg_mode :: "string option"
  leg_route :: "string option"
  leg_from :: "place option"
  leg_to :: "place option"
  leg_startTime :: "int option"
  leg_endTime :: "int option"
  leg_duration :: "real option"
  leg_distance :: "real option"
  leg_routeShortName :: "string option"
  leg_routeLongName :: "string option"
  leg_headsign :: "string option"

record itinerary =
  itin_legs :: "leg list option"
  itin_duration :: "real option"
  itin_walkDistance :: "real option"

text \<open>\<^verbatim>\<open>d.get(key, default)\<close>.\<close>

definition get_or :: "'a option \<Rightarrow> 'a \<Rightarrow> 'a" where
  "get_or v d = (case v of None \<Rightarrow> d | Some x \<Rightarrow> x)"

definition empty_place :: place where
  "empty_place = \<lparr>place_name = None, place_lat = None, place_lon = None\<rparr>"

section \<open>Transfer points and route segments\<close>

record TransferPoint =
  name :: string
  latitude :: real
  longitude :: real
  arrival_time :: "int option"
  departure_time :: "int option"
  is_station :: bool
  modes_available :: "string list"

record route_info_dict =
  ri_route :: "string option"
  ri_route_short_name :: "string option"
  ri_route_long_name :: "string option"
  ri_headsign :: "string option"

subsection \<open>\<^verbatim>\<open>extract_transfer_points\<close>\<close>

text \<open>The test of lines 83 to 88 on a leg and the leg after it.\<close>

definition is_transfer :: "leg \<Rightarrow> leg \<Rightarrow> bool" where
  "is_transfer l next_leg =
     (let to_info = get_or (leg_to l) empty_place
      in leg_mode l \<noteq> leg_mode next_leg
         \<or> leg_route l \<noteq> leg_route next_leg
         \<or> str_in ''bahnhof'' (lower (get_or (place_name to_info) ''''))
         \<or> str_in ''station'' (lower (get_or (place_name to_info) '''')))"

definition start_point :: "leg \<Rightarrow> TransferPoint" where
  "start_point first_leg =
     (let from_info = get_or (leg_from first_leg) empty_place
      in \<lparr>name = get_or (place_name from_info) ''Start'',
          latitude = get_or (place_lat from_info) 0,
          longitude = get_or (place_lon from_info) 0,
          arrival_time = None,
          departure_time = leg_startTime first_leg,
          is_station = (leg_mode first_leg \<noteq> Some ''WALK''),
          modes_available = []\<rparr>)"

definition intermediate_point :: "nat \<Rightarrow> leg \<Rightarrow> leg \<Rightarrow> TransferPoint" where
  "intermediate_point i l next_leg =
     (let to_info = get_or (leg_to l) empty_place
      in \<lparr>name = get_or (place_name to_info) (''Transfer '' @ str_nat (i + 1)),
          latitude = get_or (place_lat to_info) 0,
          longitude = get_or (place_lon to_info) 0,
          arrival_time = leg_endTime l,
          departure_time = leg_startTime next_leg,
          is_station = True,
          modes_available = []\<rparr>)"

definition destination_point :: "leg \<Rightarrow> TransferPoint" where
  "destination_point last_leg =
     (let to_info = get_or (leg_to last_leg) empty_place
      in \<lparr>name = get_or (place_name to_info) ''Destination'',
          latitude = get_or (place_lat to_info) 0,
          longitude = get_or (place_lon to_info) 0,
          arrival_time = leg_endTime last_leg,
          departure_time = None,
          is_station = False,
          modes_available = []\<rparr>)"

text \<open>
  The loop of lines 78 to 98 over \<^verbatim>\<open>enumerate(legs[:-1])\<close>; \<open>legs ! (i + 1)\<close> is in range,
  since \<open>i\<close> indexes all legs but the last.
\<close>

fun transfer_loop :: "leg list \<Rightarrow> (nat \<times> leg) list \<Rightarrow> TransferPoint list \<Rightarrow> TransferPoint list" where
  "transfer_loop legs [] transfer_points = transfer_points"
| "transfer_loop legs ((i, l) # rest) transfer_points =
     (let next_leg = legs ! (i + 1)
      in if is_transfer l next_leg
         then transfer_loop legs rest (transfer_points @ [intermediate_point i l next_leg])
         else transfer_loop legs rest transfer_points)"

definition extract_transfer_points :: "itinerary \<Rightarrow> TransferPoint list" where
  "extract_transfer_points otp_itinerary =
     (let legs = get_or (itin_legs otp_itinerary) []
      in if legs = [] then []
         else transfer_loop legs (enumerate 0 (butlast legs)) [start_point (hd legs)]
                @ [destination_point (last legs)])"

subsection \<open>Alternatives attached to a segment\<close>

text \<open>
  The dictionaries built at lines 261 to 282 (bike share) and 352 to 367 (scooter share).
\<close>

record start_station_dict =
  ss_name :: "string option"
  ss_distance_m :: int
  ss_bikes_available :: nat
  ss_ebikes_available :: nat
  ss_latitude :: real
  ss_longitude :: real

record dest_station_dict =
  ds_name :: "string option"
  ds_distance_m :: int
  ds_latitude :: real
  ds_longitude :: real

record scooter_dict =
  sd_id :: string
  sd_distance_m :: int
  sd_battery_percentage :: real
  sd_provider :: string
  sd_latitude :: real
  sd_longitude :: real

datatype payload =
  BikeStations start_station_dict dest_station_dict
| ScooterInfo scooter_dict

record alternative =
  alt_mode :: string
  alt_type :: string
  alt_summary :: string
  alt_payload :: payload
  alt_duration_min :: "real option"
  alt_distance_km :: "real option"
  alt_est_cost_chf :: real

record RouteSegment =
  segment_id :: string
  from_point :: TransferPoint
  to_point :: TransferPoint
  seg_mode :: string
  duration_min :: real
  distance_m :: real
  route_info :: "route_info_dict option"
  alternatives_available :: bool
  alternatives :: "alternative list"

subsection \<open>\<^verbatim>\<open>create_route_segments\<close>\<close>

text \<open>
  Lines 157 to 168: the first leg of the segment whose mode is not WALK sets the primary mode
  and the route info; \<open>None\<close> is the empty dictionary.
\<close>

fun primary_mode :: "leg list \<Rightarrow> string \<times> route_info_dict option" where
  "primary_mode [] = (''WALK'', None)"
| "primary_mode (l # ls) =
     (if leg_mode l \<noteq> Some ''WALK''
      then (get_or (leg_mode l) ''TRANSIT'',
            Some \<lparr>ri_route = leg_route l,
                  ri_route_short_name = leg_routeShortName l,
                  ri_route_long_name = leg_routeLongName l,
                  ri_headsign = leg_headsign l\<rparr>)
      else primary_mode ls)"

text \<open>Lines 146 and 147: the leg ends at the transfer point, up to the tolerance.\<close>

definition ends_at :: "leg \<Rightarrow> TransferPoint \<Rightarrow> bool" where
  "ends_at l tp =
     (let to_info = get_or (leg_to l) empty_place
      in \<bar>get_or (place_lat to_info) 0 - latitude tp\<bar> < 0.0001
         \<and> \<bar>get_or (place_lon to_info) 0 - longitude tp\<bar> < 0.0001)"

text \<open>
  Lines 153 to 178. The two sums are taken exactly, as Python takes them for whole numbers
  of seconds and metres; the division and the rounding of the duration are binary64.
\<close>

definition make_segment ::
  "leg list \<Rightarrow> TransferPoint list \<Rightarrow> nat \<Rightarrow> nat \<Rightarrow> RouteSegment" where
  "make_segment segment_legs transfer_points transfer_idx n_segments =
     (let total_duration = fdiv (\<Sum>l\<leftarrow>segment_legs. get_or (leg_duration l) 0) 60;
          total_distance = (\<Sum>l\<leftarrow>segment_legs. get_or (leg_distance l) 0);
          pm = primary_mode segment_legs
      in \<lparr>segment_id = ''seg-'' @ str_nat (n_segments + 1),
          from_point = transfer_points ! (transfer_idx - 1),
          to_point = transfer_points ! transfer_idx,
          seg_mode = fst pm,
          duration_min = py_round total_duration 1,
          distance_m = total_distance,
          route_info = snd pm,
          alternatives_available = False,
          alternatives = []\<rparr>)"

text \<open>
  The loop of lines 138 to 182 over \<^verbatim>\<open>enumerate(legs)\<close>, with its three variables
  \<open>current_segment_start\<close>, \<open>transfer_idx\<close> and \<open>segments\<close>. Each segment is returned with
  its leg span \<open>(current_segment_start, leg_idx + 1)\<close>: the bounds of the slice
  \<^verbatim>\<open>legs[current_segment_start:leg_idx + 1]\<close> it was built from, which the source only
  keeps in the local \<open>segment_legs\<close>.
\<close>

fun segment_loop ::
  "leg list \<Rightarrow> TransferPoint list \<Rightarrow> (nat \<times> leg) list \<Rightarrow> nat \<Rightarrow> nat
     \<Rightarrow> ((nat \<times> nat) \<times> RouteSegment) list \<Rightarrow> ((nat \<times> nat) \<times> RouteSegment) list" where
  "segment_loop legs transfer_points [] current_segment_start transfer_idx segments = segments"
| "segment_loop legs transfer_points ((leg_idx, l) # rest) current_segment_start transfer_idx segments =
     (if transfer_idx < length transfer_points \<and> ends_at l (transfer_points ! transfer_idx)
      then segment_loop legs transfer_points rest (leg_idx + 1) (transfer_idx + 1)
             (segments @
                [((current_segment_start, leg_idx + 1),
                  make_segment (slice legs current_segment_start (leg_idx + 1))
                    transfer_points transfer_idx (length segments))])
      else segment_loop legs transfer_points rest current_segment_start transfer_idx segments)"

definition create_route_segments_spans ::
  "itinerary \<Rightarrow> TransferPoint list \<Rightarrow> ((nat \<times> nat) \<times> RouteSegment) list" where
  "create_route_segments_spans otp_itinerary transfer_points =
     (let legs = get_or (itin_legs otp_itinerary) []
      in if length transfer_points < 2 then []
         else segment_loop legs transfer_points (enumerate 0 legs) 0 1 [])"

definition create_route_segments :: "itinerary \<Rightarrow> TransferPoint list \<Rightarrow> RouteSegment list" where
  "create_route_segments otp_itinerary transfer_points =
     map snd (create_route_segments_spans otp_itinerary transfer_points)"

text \<open>The leg spans of the segments of an itinerary, as pairs of leg indices (first, end).\<close>

definition leg_spans :: "itinerary \<Rightarrow> (nat \<times> nat) list" where
  "leg_spans otp_itinerary =
     map fst (create_route_segments_spans otp_itinerary (extract_transfer_points otp_itinerary))"

section \<open>Mobility providers\<close>

text \<open>
  An exception is a value: \<open>MathDomainError\<close> is the \<^verbatim>\<open>ValueError\<close> of \<^verbatim>\<open>math.sqrt\<close> on a
  negative number, \<open>RequestFailed\<close> the \<^verbatim>\<open>Exception\<close> a client raises when its HTTP request
  fails or times out. A function that can raise returns \<open>error + 'a\<close>.

  The network is outside the program. A client is a record of its request methods, and each
  method is given the number of requests made so far (the tick), so that two calls of the
  same method may answer differently. A function that makes requests takes the tick and
  returns the new one with its result.
\<close>

datatype error = MathDomainError | RequestFailed string

type_synonym tick = nat

subsection \<open>The Haversine distance (\<^verbatim>\<open>calculate_distance\<close>, the same in both provider modules)\<close>

definition radians :: "real \<Rightarrow> real" where
  "radians x = x * pi / 180"

definition atan2 :: "real \<Rightarrow> real \<Rightarrow> real" where
  "atan2 y x =
     (if 0 < x then arctan (y / x)
      else if x < 0 \<and> 0 \<le> y then arctan (y / x) + pi
      else if x < 0 \<and> y < 0 then arctan (y / x) - pi
      else if 0 < y then pi / 2
      else if y < 0 then - pi / 2
      else 0)"

definition calculate_distance :: "real \<Rightarrow> real \<Rightarrow> real \<Rightarrow> real \<Rightarrow> error + real" where
  "calculate_distance lat1 lon1 lat2 lon2 =
     (let R = 6371000;
          phi1 = radians lat1;
          phi2 = radians lat2;
          delta_phi = radians (lat2 - lat1);
          delta_lambda = radians (lon2 - lon1);
          a = (sin (delta_phi / 2))\<^sup>2 + cos phi1 * cos phi2 * (sin (delta_lambda / 2))\<^sup>2
      in if a < 0 \<or> 1 - a < 0 then Inl MathDomainError
         else Inr (R * (2 * atan2 (sqrt a) (sqrt (1 - a)))))"

subsection \<open>\<^verbatim>\<open>publiBike_api.py\<close>\<close>

record Vehicle =
  veh_id :: "int option"
  veh_name :: "string option"
  veh_type_id :: "int option"
  veh_type_name :: string
  ebike_battery_level :: "real option"

definition is_ebike :: "Vehicle \<Rightarrow> bool" where
  "is_ebike v = (ebike_battery_level v \<noteq> None)"

record StationState =
  state_id :: "int option"
  state_name :: string

record Station =
  station_id :: int
  st_latitude :: real
  st_longitude :: real
  st_state :: StationState
  st_name :: "string option"
  st_address :: "string option"
  st_zip_code :: "string option"
  st_city :: "string option"
  st_vehicles :: "Vehicle list"

definition is_active :: "Station \<Rightarrow> bool" where
  "is_active s = (state_id (st_state s) = Some 1)"

definition available_bikes_count :: "Station \<Rightarrow> nat" where
  "available_bikes_count s = length (st_vehicles s)"

definition available_ebikes_count :: "Station \<Rightarrow> nat" where
  "available_ebikes_count s = length (filter is_ebike (st_vehicles s))"

definition has_bikes_available :: "Station \<Rightarrow> bool" where
  "has_bikes_available s = (0 < length (st_vehicles s))"

record PubliBikeClient =
  get_stations_overview :: "tick \<Rightarrow> error + Station list"
  get_station_details :: "tick \<Rightarrow> int \<Rightarrow> error + Station"

text \<open>The loop of \<^verbatim>\<open>find_nearby_stations\<close> (lines 270 to 284), then the stable sort by distance.\<close>

fun nearby_stations_loop ::
  "real \<Rightarrow> real \<Rightarrow> real \<Rightarrow> bool \<Rightarrow> bool \<Rightarrow> Station list \<Rightarrow> (Station \<times> real) list
     \<Rightarrow> error + (Station \<times> real) list" where
  "nearby_stations_loop lat lon radius_m only_active only_with_bikes [] nearby = Inr nearby"
| "nearby_stations_loop lat lon radius_m only_active only_with_bikes (station # stations) nearby =
     (if only_active \<and> \<not> is_active station
      then nearby_stations_loop lat lon radius_m only_active only_with_bikes stations nearby
      else if only_with_bikes \<and> \<not> has_bikes_available station
      then nearby_stations_loop lat lon radius_m only_active only_with_bikes stations nearby
      else case calculate_distance lat lon (st_latitude station) (st_longitude station) of
             Inl e \<Rightarrow> Inl e
           | Inr distance \<Rightarrow>
               if distance \<le> radius_m
               then nearby_stations_loop lat lon radius_m only_active only_with_bikes stations
                      (nearby @ [(station, distance)])
               else nearby_stations_loop lat lon radius_m only_active only_with_bikes stations
                      nearby)"

definition find_nearby_stations ::
  "real \<Rightarrow> real \<Rightarrow> Station list \<Rightarrow> real \<Rightarrow> bool \<Rightarrow> bool \<Rightarrow> error + (Station \<times> real) list" where
  "find_nearby_stations lat lon stations radius_m only_active only_with_bikes =
     (case nearby_stations_loop lat lon radius_m only_active only_with_bikes stations [] of
        Inl e \<Rightarrow> Inl e
      | Inr nearby \<Rightarrow> Inr (sort_key snd nearby))"

text \<open>
  \<^verbatim>\<open>get_nearby_bikes\<close>: a station whose details cannot be fetched is left out (lines 328
  to 334).
\<close>

fun bikes_details_loop ::
  "PubliBikeClient \<Rightarrow> (Station \<times> real) list \<Rightarrow> (Station \<times> real) list \<Rightarrow> tick
     \<Rightarrow> (Station \<times> real) list \<times> tick" where
  "bikes_details_loop client [] stations_with_bikes t = (stations_with_bikes, t)"
| "bikes_details_loop client ((station, distance) # rest) stations_with_bikes t =
     (case get_station_details client t (station_id station) of
        Inl e \<Rightarrow> bikes_details_loop client rest stations_with_bikes (t + 1)
      | Inr detailed \<Rightarrow>
          if has_bikes_available detailed
          then bikes_details_loop client rest (stations_with_bikes @ [(detailed, distance)]) (t + 1)
          else bikes_details_loop client rest stations_with_bikes (t + 1))"

definition get_nearby_bikes ::
  "real \<Rightarrow> real \<Rightarrow> real \<Rightarrow> PubliBikeClient \<Rightarrow> tick \<Rightarrow> (error + (Station \<times> real) list) \<times> tick" where
  "get_nearby_bikes lat lon radius_m client t =
     (case get_stations_overview client t of
        Inl e \<Rightarrow> (Inl e, t + 1)
      | Inr stations \<Rightarrow>
          (case find_nearby_stations lat lon stations radius_m True False of
             Inl e \<Rightarrow> (Inl e, t + 1)
           | Inr nearby \<Rightarrow>
               (let (stations_with_bikes, t') = bikes_details_loop client nearby [] (t + 1)
                in (Inr stations_with_bikes, t'))))"

text \<open>
  \<^verbatim>\<open>get_nearby_return_stations\<close>: every active station in the radius; when its details
  cannot be fetched the overview entry is used (lines 377 to 384).
\<close>

fun return_details_loop ::
  "PubliBikeClient \<Rightarrow> (Station \<times> real) list \<Rightarrow> (Station \<times> real) list \<Rightarrow> tick
     \<Rightarrow> (Station \<times> real) list \<times> tick" where
  "return_details_loop client [] detailed_stations t = (detailed_stations, t)"
| "return_details_loop client ((station, distance) # rest) detailed_stations t =
     (case get_station_details client t (station_id station) of
        Inl e \<Rightarrow> return_details_loop client rest (detailed_stations @ [(station, distance)]) (t + 1)
      | Inr detailed \<Rightarrow>
          return_details_loop client rest (detailed_stations @ [(detailed, distance)]) (t + 1))"

definition get_nearby_return_stations ::
  "real \<Rightarrow> real \<Rightarrow> real \<Rightarrow> PubliBikeClient \<Rightarrow> tick \<Rightarrow> (error + (Station \<times> real) list) \<times> tick" where
  "get_nearby_return_stations lat lon radius_m client t =
     (case get_stations_overview client t of
        Inl e \<Rightarrow> (Inl e, t + 1)
      | Inr stations \<Rightarrow>
          (case find_nearby_stations lat lon stations radius_m True False of
             Inl e \<Rightarrow> (Inl e, t + 1)
           | Inr nearby \<Rightarrow>
               (let (detailed_stations, t') = return_details_loop client nearby [] (t + 1)
                in (Inr detailed_stations, t'))))"

subsection \<open>\<^verbatim>\<open>e_scooter_api.py\<close>\<close>

record Scooter =
  vehicle_id :: string
  sc_latitude :: real
  sc_longitude :: real
  provider_id :: string
  provider_name :: string
  vehicle_type :: string
  battery_level :: "real option"
  is_reserved :: bool
  is_disabled :: bool
  sc_distance :: "real option"

definition is_available :: "Scooter \<Rightarrow> bool" where
  "is_available s = (\<not> is_reserved s \<and> \<not> is_disabled s)"

definition get_battery_percentage :: "Scooter \<Rightarrow> real option" where
  "get_battery_percentage s = battery_level s"

text \<open>The request method takes the latitude, the longitude and the radius.\<close>

record VoiScooterClient =
  get_scooters_near_location :: "tick \<Rightarrow> real \<Rightarrow> real \<Rightarrow> real \<Rightarrow> error + Scooter list"

definition get_available_scooters_near_location ::
  "VoiScooterClient \<Rightarrow> real \<Rightarrow> real \<Rightarrow> real \<Rightarrow> tick \<Rightarrow> (error + Scooter list) \<times> tick" where
  "get_available_scooters_near_location client lat lon radius_m t =
     (case get_scooters_near_location client t lat lon radius_m of
        Inl e \<Rightarrow> (Inl e, t + 1)
      | Inr all_scooters \<Rightarrow> (Inr (filter is_available all_scooters), t + 1))"

text \<open>\<^verbatim>\<open>battery is None or battery < min_battery_percentage\<close>, when a minimum is given.\<close>

definition battery_too_low :: "real option \<Rightarrow> Scooter \<Rightarrow> bool" where
  "battery_too_low min_battery_percentage s =
     (case min_battery_percentage of
        None \<Rightarrow> False
      | Some m \<Rightarrow> (case get_battery_percentage s of None \<Rightarrow> True | Some b \<Rightarrow> b < m))"

text \<open>The loop of \<^verbatim>\<open>find_nearby_scooters\<close> (lines 245 to 261), then the stable sort.\<close>

fun nearby_scooters_loop ::
  "real \<Rightarrow> real \<Rightarrow> real \<Rightarrow> bool \<Rightarrow> real option \<Rightarrow> Scooter list \<Rightarrow> (Scooter \<times> real) list
     \<Rightarrow> error + (Scooter \<times> real) list" where
  "nearby_scooters_loop lat lon radius_m only_available min_battery [] nearby = Inr nearby"
| "nearby_scooters_loop lat lon radius_m only_available min_battery (scooter # scooters) nearby =
     (if only_available \<and> \<not> is_available scooter
      then nearby_scooters_loop lat lon radius_m only_available min_battery scooters nearby
      else if battery_too_low min_battery scooter
      then nearby_scooters_loop lat lon radius_m only_available min_battery scooters nearby
      else case calculate_distance lat lon (sc_latitude scooter) (sc_longitude scooter) of
             Inl e \<Rightarrow> Inl e
           | Inr distance \<Rightarrow>
               if distance \<le> radius_m
               then nearby_scooters_loop lat lon radius_m only_available min_battery scooters
                      (nearby @ [(scooter, distance)])
               else nearby_scooters_loop lat lon radius_m only_available min_battery scooters
                      nearby)"

definition find_nearby_scooters ::
  "real \<Rightarrow> real \<Rightarrow> Scooter list \<Rightarrow> real \<Rightarrow> bool \<Rightarrow> real option \<Rightarrow> error + (Scooter \<times> real) list" where
  "find_nearby_scooters lat lon scooters radius_m only_available min_battery_percentage =
     (case nearby_scooters_loop lat lon radius_m only_available min_battery_percentage scooters [] of
        Inl e \<Rightarrow> Inl e
      | Inr nearby \<Rightarrow> Inr (sort_key snd nearby))"

text \<open>
  \<^verbatim>\<open>get_nearby_scooters\<close> (lines 297 to 313): the radius is left to the provider's request;
  every available scooter it returns is kept with its distance.
\<close>

fun scooter_distance_loop ::
  "real \<Rightarrow> real \<Rightarrow> real option \<Rightarrow> Scooter list \<Rightarrow> (Scooter \<times> real) list
     \<Rightarrow> error + (Scooter \<times> real) list" where
  "scooter_distance_loop lat lon min_battery [] result = Inr result"
| "scooter_distance_loop lat lon min_battery (scooter # scooters) result =
     (if battery_too_low min_battery scooter
      then scooter_distance_loop lat lon min_battery scooters result
      else case calculate_distance lat lon (sc_latitude scooter) (sc_longitude scooter) of
             Inl e \<Rightarrow> Inl e
           | Inr distance \<Rightarrow>
               scooter_distance_loop lat lon min_battery scooters (result @ [(scooter, distance)]))"

definition get_nearby_scooters ::
  "real \<Rightarrow> real \<Rightarrow> real \<Rightarrow> VoiScooterClient \<Rightarrow> real option \<Rightarrow> tick
     \<Rightarrow> (error + (Scooter \<times> real) list) \<times> tick" where
  "get_nearby_scooters lat lon radius_m client min_battery_percentage t =
     (case get_available_scooters_near_location client lat lon radius_m t of
        (Inl e, t') \<Rightarrow> (Inl e, t')
      | (Inr scooters, t') \<Rightarrow>
          (case scooter_distance_loop lat lon min_battery_percentage scooters [] of
             Inl e \<Rightarrow> (Inl e, t')
           | Inr result \<Rightarrow> (Inr (sort_key snd result), t')))"

subsection \<open>\<^verbatim>\<open>otp_integration.py\<close>: the secondary routing call\<close>

record plan_request =
  req_from_lat :: real
  req_from_lon :: real
  req_to_lat :: real
  req_to_lon :: real
  req_mode :: string
  req_max_walk_distance :: int
  req_num_itineraries :: int

record otp_plan =
  plan_itineraries :: "itinerary list option"

record otp_response =
  resp_plan :: "otp_plan option"

record OTPClient =
  plan :: "tick \<Rightarrow> plan_request \<Rightarrow> error + otp_response"

definition plan_bicycle ::
  "OTPClient \<Rightarrow> tick \<Rightarrow> real \<Rightarrow> real \<Rightarrow> real \<Rightarrow> real \<Rightarrow> int \<Rightarrow> error + otp_response" where
  "plan_bicycle client t from_lat from_lon to_lat to_lon num_itineraries =
     plan client t
       \<lparr>req_from_lat = from_lat, req_from_lon = from_lon, req_to_lat = to_lat, req_to_lon = to_lon,
        req_mode = ''BICYCLE'', req_max_walk_distance = 1000,
        req_num_itineraries = num_itineraries\<rparr>"

text \<open>\<^verbatim>\<open>otp_response.get('plan', {}).get('itineraries', [])\<close>.\<close>

definition response_itineraries :: "otp_response \<Rightarrow> itinerary list" where
  "response_itineraries r = get_or (plan_itineraries (get_or (resp_plan r) \<lparr>plan_itineraries = None\<rparr>)) []"

text \<open>
  \<^verbatim>\<open>parse_otp_itinerary\<close>, with the entries the segmentation engine reads.
\<close>

record parsed_itinerary =
  parsed_duration_sec :: real
  parsed_duration_min :: real
  parsed_walk_distance_m :: real

definition parse_otp_itinerary :: "itinerary \<Rightarrow> parsed_itinerary" where
  "parse_otp_itinerary it =
     \<lparr>parsed_duration_sec = get_or (itin_duration it) 0,
      parsed_duration_min = py_round (fdiv (get_or (itin_duration it) 0) 60) 1,
      parsed_walk_distance_m = get_or (itin_walkDistance it) 0\<rparr>"

section \<open>\<^verbatim>\<open>find_alternative_modes_at_transfer\<close>\<close>

text \<open>An optional string inside an f-string: \<^verbatim>\<open>None\<close> prints as the word None.\<close>

definition format_opt :: "string option \<Rightarrow> string" where
  "format_opt v = get_or v ''None''"

text \<open>\<^verbatim>\<open>f"{x:.0f}"\<close>: the nearest integer, a tie to the even one; the sign of \<open>x\<close> is kept.\<close>

definition format_0f :: "real \<Rightarrow> string" where
  "format_0f x = (if x < 0 then CHR ''-'' # str_nat (nat (round_half_even (- x)))
                  else str_nat (nat (round_half_even x)))"

text \<open>
  Lines 235 to 259: the duration and the distance of the bike alternative. Both start as
  \<open>None\<close> and are set only when the routing call returns an itinerary.
\<close>

definition bike_estimate ::
  "OTPClient option \<Rightarrow> Station \<Rightarrow> real \<Rightarrow> Station \<Rightarrow> real \<Rightarrow> tick
     \<Rightarrow> (real option \<times> real option) \<times> tick" where
  "bike_estimate otp_client start_station start_dist dest_station dest_dist t =
     (case otp_client of
        None \<Rightarrow> ((None, None), t)
      | Some client \<Rightarrow>
          (case plan_bicycle client t (st_latitude start_station) (st_longitude start_station)
                  (st_latitude dest_station) (st_longitude dest_station) 1 of
             Inl e \<Rightarrow> ((None, None), t + 1)
           | Inr otp_response \<Rightarrow>
               (case response_itineraries otp_response of
                  [] \<Rightarrow> ((None, None), t + 1)
                | it # _ \<Rightarrow>
                    (let parsed = parse_otp_itinerary it;
                         bike_time = parsed_duration_min parsed;
                         walk_to = py_round (fdiv start_dist 80) 1;
                         walk_from = py_round (fdiv dest_dist 80) 1
                     in ((Some (fadd (fadd bike_time walk_to) walk_from),
                          Some (fdiv (parsed_walk_distance_m parsed) 1000)), t + 1)))))"

text \<open>Lines 261 to 282.\<close>

definition bike_alternative ::
  "Station \<Rightarrow> real \<Rightarrow> Station \<Rightarrow> real \<Rightarrow> real option \<Rightarrow> real option \<Rightarrow> alternative" where
  "bike_alternative start_station start_dist dest_station dest_dist duration_estimate distance_km =
     \<lparr>alt_mode = ''publibike'',
      alt_type = ''bike_share'',
      alt_summary = ''PubliBike from '' @ format_opt (st_name start_station)
                      @ '' ('' @ str_int (py_int start_dist) @ ''m)'',
      alt_payload = BikeStations
        \<lparr>ss_name = st_name start_station,
         ss_distance_m = py_int start_dist,
         ss_bikes_available = available_bikes_count start_station,
         ss_ebikes_available = available_ebikes_count start_station,
         ss_latitude = st_latitude start_station,
         ss_longitude = st_longitude start_station\<rparr>
        \<lparr>ds_name = st_name dest_station,
         ds_distance_m = py_int dest_dist,
         ds_latitude = st_latitude dest_station,
         ds_longitude = st_longitude dest_station\<rparr>,
      alt_duration_min = duration_estimate,
      alt_distance_km = distance_km,
      alt_est_cost_chf = 4.0\<rparr>"

text \<open>
  Lines 212 to 285, the bike-share block. Any exception raised inside it is caught at line
  284, and the block then adds nothing.
\<close>

definition publibike_alternatives ::
  "TransferPoint \<Rightarrow> TransferPoint \<Rightarrow> PubliBikeClient option \<Rightarrow> OTPClient option \<Rightarrow> real \<Rightarrow> tick
     \<Rightarrow> alternative list \<times> tick" where
  "publibike_alternatives transfer_point destination publibike_client otp_client search_radius_m t =
     (case publibike_client of
        None \<Rightarrow> ([], t)
      | Some client \<Rightarrow>
          (case get_nearby_bikes (latitude transfer_point) (longitude transfer_point)
                  search_radius_m client t of
             (Inl e, t1) \<Rightarrow> ([], t1)
           | (Inr nearby_bikes, t1) \<Rightarrow>
               (case get_nearby_return_stations (latitude destination) (longitude destination)
                       search_radius_m client t1 of
                  (Inl e, t2) \<Rightarrow> ([], t2)
                | (Inr nearby_returns, t2) \<Rightarrow>
                    (if nearby_bikes \<noteq> [] \<and> nearby_returns \<noteq> []
                     then (let (start_station, start_dist) = hd nearby_bikes;
                               (dest_station, dest_dist) = hd nearby_returns;
                               ((duration_estimate, distance_km), t3) =
                                  bike_estimate otp_client start_station start_dist
                                    dest_station dest_dist t2
                           in ([bike_alternative start_station start_dist dest_station dest_dist
                                  duration_estimate distance_km], t3))
                     else ([], t2)))))"

text \<open>
  Lines 303 to 341: duration, distance and cost of the scooter alternative. The routing call
  asks for a walking route from the scooter to the destination.
\<close>

definition scooter_estimate ::
  "OTPClient option \<Rightarrow> Scooter \<Rightarrow> real \<Rightarrow> TransferPoint \<Rightarrow> tick
     \<Rightarrow> (real \<times> real option \<times> real) \<times> tick" where
  "scooter_estimate otp_client scooter scooter_dist destination t =
     (case otp_client of
        None \<Rightarrow> ((10, None, 5.0), t)
      | Some client \<Rightarrow>
          (case plan client t
                  \<lparr>req_from_lat = sc_latitude scooter, req_from_lon = sc_longitude scooter,
                   req_to_lat = latitude destination, req_to_lon = longitude destination,
                   req_mode = ''WALK'', req_max_walk_distance = 10000,
                   req_num_itineraries = 1\<rparr> of
             Inl e \<Rightarrow> ((10, None, 5.0), t + 1)
           | Inr otp_response \<Rightarrow>
               (case response_itineraries otp_response of
                  [] \<Rightarrow> ((10, None, 5.0), t + 1)
                | it # _ \<Rightarrow>
                    (let parsed = parse_otp_itinerary it;
                         scooter_time = max 3 (py_round (fdiv (parsed_duration_min parsed) 3) 1);
                         walk_to = py_round (fdiv scooter_dist 80) 1;
                         duration_estimate = fadd scooter_time walk_to;
                         distance_km = fdiv (parsed_walk_distance_m parsed) 1000;
                         est_cost = py_round (fadd 1.0 (fmul scooter_time (fl 0.29))) 2
                     in ((duration_estimate, Some distance_km, est_cost), t + 1)))))"

text \<open>Lines 343 to 367.\<close>

definition scooter_alternative ::
  "Scooter \<Rightarrow> real \<Rightarrow> real \<Rightarrow> real option \<Rightarrow> real \<Rightarrow> alternative" where
  "scooter_alternative scooter scooter_dist duration_estimate distance_km est_cost =
     (let battery = get_battery_percentage scooter;
          battery_pct = (case battery of None \<Rightarrow> 100 | Some b \<Rightarrow> b);
          summary =
            (if battery \<noteq> None
             then ''Voi Scooter ('' @ str_int (py_int scooter_dist) @ ''m away, ''
                    @ format_0f battery_pct @ ''% battery)''
             else ''Voi Scooter ('' @ str_int (py_int scooter_dist) @ ''m away)'')
      in \<lparr>alt_mode = ''e_scooter'',
          alt_type = ''scooter_share'',
          alt_summary = summary,
          alt_payload = ScooterInfo
            \<lparr>sd_id = vehicle_id scooter,
             sd_distance_m = py_int scooter_dist,
             sd_battery_percentage = battery_pct,
             sd_provider = provider_name scooter,
             sd_latitude = sc_latitude scooter,
             sd_longitude = sc_longitude scooter\<rparr>,
          alt_duration_min = Some duration_estimate,
          alt_distance_km = distance_km,
          alt_est_cost_chf = est_cost\<rparr>)"

text \<open>Lines 288 to 370, the scooter block; the exceptions it catches add nothing.\<close>

definition escooter_alternatives ::
  "TransferPoint \<Rightarrow> TransferPoint \<Rightarrow> VoiScooterClient option \<Rightarrow> OTPClient option \<Rightarrow> real \<Rightarrow> tick
     \<Rightarrow> alternative list \<times> tick" where
  "escooter_alternatives transfer_point destination escooter_client otp_client search_radius_m t =
     (case escooter_client of
        None \<Rightarrow> ([], t)
      | Some client \<Rightarrow>
          (case get_nearby_scooters (latitude transfer_point) (longitude transfer_point)
                  search_radius_m client None t of
             (Inl e, t1) \<Rightarrow> ([], t1)
           | (Inr nearby_scooters, t1) \<Rightarrow>
               (if nearby_scooters \<noteq> []
                then (let (scooter, scooter_dist) = hd nearby_scooters;
                          ((duration_estimate, distance_km, est_cost), t2) =
                             scooter_estimate otp_client scooter scooter_dist destination t1
                      in ([scooter_alternative scooter scooter_dist duration_estimate
                             distance_km est_cost], t2))
                else ([], t1))))"

definition find_alternative_modes_at_transfer ::
  "TransferPoint \<Rightarrow> TransferPoint \<Rightarrow> PubliBikeClient option \<Rightarrow> VoiScooterClient option
     \<Rightarrow> OTPClient option \<Rightarrow> real \<Rightarrow> tick \<Rightarrow> alternative list \<times> tick" where
  "find_alternative_modes_at_transfer transfer_point destination publibike_client escooter_client
       otp_client search_radius_m t =
     (let (bikes, t1) = publibike_alternatives transfer_point destination publibike_client
                          otp_client search_radius_m t;
          (scooters, t2) = escooter_alternatives transfer_point destination escooter_client
                             otp_client search_radius_m t1
      in (bikes @ scooters, t2))"

section \<open>\<^verbatim>\<open>analyze_route_with_alternatives\<close>\<close>








section \<open>Notions used to state the properties\<close>

text \<open>What one round of the loop of \<^verbatim>\<open>extract_transfer_points\<close> appends: one point or none.\<close>

definition emit_at :: "leg list \<Rightarrow> nat \<times> leg \<Rightarrow> TransferPoint list" where
  "emit_at legs p =
     (if is_transfer (snd p) (legs ! (fst p + 1))
      then [intermediate_point (fst p) (snd p) (legs ! (fst p + 1))] else [])"

text \<open>
  The transfer points \<open>tps\<close> can be met in their order by the ends of some of the legs
  \<open>ls\<close>, taken in the legs' order.
\<close>

fun ends_in_order :: "leg list \<Rightarrow> TransferPoint list \<Rightarrow> bool" where
  "ends_in_order ls [] = True"
| "ends_in_order [] (tp # tps) = False"
| "ends_in_order (l # ls) (tp # tps) =
     ((ends_at l tp \<and> ends_in_order ls tps) \<or> ends_in_order ls (tp # tps))"


text \<open>The name of the place a leg ends at, as line 86 reads it.\<close>

definition to_name :: "leg \<Rightarrow> string" where
  "to_name l = get_or (place_name (get_or (leg_to l) empty_place)) []"

definition major_station_terms :: "string list" where
  "major_station_terms = [''bahnhof'', ''station'']"

text \<open>
  Following the spec's words, not the source: the data model of the spec gives a leg a route
  identity made of the route code, the short name, the long name and the headsign.
\<close>

definition spec_route_identity ::
  "leg \<Rightarrow> string option \<times> string option \<times> string option \<times> string option" where
  "spec_route_identity l =
     (leg_route l, leg_routeShortName l, leg_routeLongName l, leg_headsign l)"

section \<open>Example inputs\<close>

definition mk_place :: "string \<Rightarrow> real \<Rightarrow> real \<Rightarrow> place option" where
  "mk_place n la lo = Some \<lparr>place_name = Some n, place_lat = Some la, place_lon = Some lo\<rparr>"

definition mk_leg ::
  "string option \<Rightarrow> string option \<Rightarrow> place option \<Rightarrow> place option \<Rightarrow> real \<Rightarrow> real \<Rightarrow> leg" where
  "mk_leg m r f t dur dst =
     \<lparr>leg_mode = m, leg_route = r, leg_from = f, leg_to = t,
      leg_startTime = None, leg_endTime = None,
      leg_duration = Some dur, leg_distance = Some dst,
      leg_routeShortName = r, leg_routeLongName = None, leg_headsign = None\<rparr>"

definition mk_itinerary :: "leg list \<Rightarrow> itinerary" where
  "mk_itinerary ls = \<lparr>itin_legs = Some ls, itin_duration = None, itin_walkDistance = None\<rparr>"

text \<open>A walk to a tram stop, tram 9 to the main station, a walk to the office.\<close>

definition tram_legs :: "leg list" where
  "tram_legs =
     [mk_leg (Some ''WALK'') None (mk_place ''Home'' 46.95 7.44)
        (mk_place ''Zytglogge'' 46.948 7.4474) 300 400,
      mk_leg (Some ''TRAM'') (Some ''9'') (mk_place ''Zytglogge'' 46.948 7.4474)
        (mk_place ''Bern, Bahnhof'' 46.949 7.439) 240 900,
      mk_leg (Some ''WALK'') None (mk_place ''Bern, Bahnhof'' 46.949 7.439)
        (mk_place ''Office'' 46.947 7.435) 180 250]"

definition tram_itinerary :: itinerary where
  "tram_itinerary = mk_itinerary tram_legs"

text \<open>A single walk from (46.95, 7.44) to (46.94, 7.43).\<close>

definition walk_itinerary :: itinerary where
  "walk_itinerary =
     mk_itinerary [mk_leg (Some ''WALK'') None (mk_place ''Home'' 46.95 7.44)
                     (mk_place ''Office'' 46.94 7.43) 900 1200]"

text \<open>
  A walk in three legs that passes the market, goes on to the park and comes back to the
  market, where it ends.
\<close>

definition detour_legs :: "leg list" where
  "detour_legs =
     [mk_leg (Some ''WALK'') None (mk_place ''Home'' 46.95 7.44)
        (mk_place ''Markt'' 46.94 7.43) 600 800,
      mk_leg (Some ''WALK'') None (mk_place ''Markt'' 46.94 7.43)
        (mk_place ''Park'' 46.96 7.45) 1200 1600,
      mk_leg (Some ''WALK'') None (mk_place ''Park'' 46.96 7.45)
        (mk_place ''Markt'' 46.94 7.43) 1200 1600]"

definition detour_itinerary :: itinerary where
  "detour_itinerary = mk_itinerary detour_legs"

text \<open>
  Two legs of bus line 10; the first one has lost its mode entry. \<open>bus_legs\<close> is the same
  itinerary with the mode in place.
\<close>

definition no_mode_legs :: "leg list" where
  "no_mode_legs =
     [mk_leg None (Some ''10'') (mk_place ''Wankdorf'' 46.96 7.46)
        (mk_place ''Zytglogge'' 46.948 7.4474) 300 2000,
      mk_leg (Some ''BUS'') (Some ''10'') (mk_place ''Zytglogge'' 46.948 7.4474)
        (mk_place ''Hirschengraben'' 46.947 7.438) 240 900]"

definition bus_legs :: "leg list" where
  "bus_legs =
     [mk_leg (Some ''BUS'') (Some ''10'') (mk_place ''Wankdorf'' 46.96 7.46)
        (mk_place ''Zytglogge'' 46.948 7.4474) 300 2000,
      mk_leg (Some ''BUS'') (Some ''10'') (mk_place ''Zytglogge'' 46.948 7.4474)
        (mk_place ''Hirschengraben'' 46.947 7.438) 240 900]"

text \<open>
  Two legs of bus line 10 that differ in nothing but their headsign, at a stop that is no
  major station.
\<close>

definition headsign_legs :: "leg list" where
  "headsign_legs =
     [(mk_leg (Some ''BUS'') (Some ''10'') (mk_place ''Wankdorf'' 46.96 7.46)
         (mk_place ''Zytglogge'' 46.948 7.4474) 300 2000)\<lparr>leg_headsign := Some ''Bern''\<rparr>,
      (mk_leg (Some ''BUS'') (Some ''10'') (mk_place ''Zytglogge'' 46.948 7.4474)
         (mk_place ''Hirschengraben'' 46.947 7.438) 240 900)\<lparr>leg_headsign := Some ''Koeniz''\<rparr>]"

text \<open>
  Four legs of bus line 10, with no change of mode or route: the first ends at a stop whose
  name has the word Bahnhof in capitals, the third at one named Station.
\<close>

definition capital_station_legs :: "leg list" where
  "capital_station_legs =
     [mk_leg (Some ''BUS'') (Some ''10'') (mk_place ''Wankdorf'' 46.96 7.46)
        (mk_place ''Bern, BAHNHOF'' 46.949 7.439) 300 2000,
      mk_leg (Some ''BUS'') (Some ''10'') (mk_place ''Bern, BAHNHOF'' 46.949 7.439)
        (mk_place ''Zytglogge'' 46.948 7.4474) 120 600,
      mk_leg (Some ''BUS'') (Some ''10'') (mk_place ''Zytglogge'' 46.948 7.4474)
        (mk_place ''Europaplatz Station'' 46.943 7.406) 480 3200,
      mk_leg (Some ''BUS'') (Some ''10'') (mk_place ''Europaplatz Station'' 46.943 7.406)
        (mk_place ''Niederwangen'' 46.927 7.376) 360 2900]"

text \<open>
  The providers of the examples. The transfer point is the main station; the destination is
  an office 0.01 degrees of latitude south of it, on the same meridian.
\<close>

definition tp_bahnhof :: TransferPoint where
  "tp_bahnhof =
     \<lparr>name = ''Bern, Bahnhof'', latitude = 46.949, longitude = 7.439, arrival_time = None,
      departure_time = None, is_station = True, modes_available = []\<rparr>"

definition tp_office :: TransferPoint where
  "tp_office =
     \<lparr>name = ''Office'', latitude = 46.939, longitude = 7.439, arrival_time = None,
      departure_time = None, is_station = False, modes_available = []\<rparr>"

definition mk_station :: "int \<Rightarrow> string \<Rightarrow> real \<Rightarrow> real \<Rightarrow> Vehicle list \<Rightarrow> Station" where
  "mk_station i n la lo vs =
     \<lparr>station_id = i, st_latitude = la, st_longitude = lo,
      st_state = \<lparr>state_id = Some 1, state_name = ''Active''\<rparr>,
      st_name = Some n, st_address = None, st_zip_code = None, st_city = None,
      st_vehicles = vs\<rparr>"

definition city_bike :: Vehicle where
  "city_bike =
     \<lparr>veh_id = Some 7, veh_name = Some ''Bike 7'', veh_type_id = Some 1, veh_type_name = ''Bike'',
      ebike_battery_level = None\<rparr>"

definition station_bahnhof :: Station where
  "station_bahnhof = mk_station 1 ''Bahnhof'' 46.949 7.439 [city_bike]"

definition station_office :: Station where
  "station_office = mk_station 2 ''Office'' 46.939 7.439 []"

text \<open>A station 0.001 degrees north of the main station, some 111 metres away.\<close>

definition station_north :: Station where
  "station_north = mk_station 3 ''Bollwerk'' 46.950 7.439 [city_bike]"

definition station_details :: "tick \<Rightarrow> int \<Rightarrow> error + Station" where
  "station_details t i =
     (if i = 1 then Inr station_bahnhof
      else if i = 2 then Inr station_office
      else Inl (RequestFailed ''no such station''))"

definition publibike_up :: PubliBikeClient where
  "publibike_up =
     \<lparr>get_stations_overview = (\<lambda>t. Inr [station_bahnhof, station_office]),
      get_station_details = station_details\<rparr>"

text \<open>The same provider without a station near the office.\<close>

definition publibike_no_return :: PubliBikeClient where
  "publibike_no_return =
     \<lparr>get_stations_overview = (\<lambda>t. Inr [station_bahnhof]),
      get_station_details = station_details\<rparr>"


definition mk_scooter :: "string \<Rightarrow> real \<Rightarrow> real \<Rightarrow> real option \<Rightarrow> Scooter" where
  "mk_scooter i la lo b =
     \<lparr>vehicle_id = i, sc_latitude = la, sc_longitude = lo, provider_id = ''voiscooters.com'',
      provider_name = ''Voi Technology AB'', vehicle_type = ''E-Scooter'', battery_level = b,
      is_reserved = False, is_disabled = False, sc_distance = None\<rparr>"

definition scooter_42 :: Scooter where
  "scooter_42 = mk_scooter ''voi-1'' 46.949 7.439 (Some 42)"

definition scooter_unknown :: Scooter where
  "scooter_unknown = mk_scooter ''voi-2'' 46.949 7.439 None"

definition scooter_north :: Scooter where
  "scooter_north = mk_scooter ''voi-3'' 46.950 7.439 (Some 80)"

definition voi_up :: VoiScooterClient where
  "voi_up = \<lparr>get_scooters_near_location = (\<lambda>t la lo r. Inr [scooter_42])\<rparr>"

definition voi_unknown_battery :: VoiScooterClient where
  "voi_unknown_battery = \<lparr>get_scooters_near_location = (\<lambda>t la lo r. Inr [scooter_unknown])\<rparr>"


definition otp_down :: OTPClient where
  "otp_down = \<lparr>plan = (\<lambda>t req. Inl (RequestFailed ''timeout''))\<rparr>"


text \<open>
  A routing service that answers every request with one route of 630 seconds (10.5 minutes)
  and 3150 m.
\<close>

definition otp_tie :: OTPClient where
  "otp_tie =
     \<lparr>plan = (\<lambda>t req. Inr \<lparr>resp_plan = Some \<lparr>plan_itineraries =
        Some [\<lparr>itin_legs = None, itin_duration = Some 630, itin_walkDistance = Some 3150\<rparr>]\<rparr>\<rparr>)\<rparr>"

text \<open>
  A candidate at \<open>(lat', lon')\<close> is in the radius of \<open>(lat, lon)\<close> with the distance \<open>d\<close>.
\<close>

definition in_radius :: "real \<Rightarrow> real \<Rightarrow> real \<Rightarrow> real \<Rightarrow> real \<Rightarrow> real \<Rightarrow> bool" where
  "in_radius lat lon radius_m lat' lon' d =
     (d \<le> radius_m \<and> calculate_distance lat lon lat' lon' = Inr d)"

section \<open>Evaluation of the examples\<close>

lemmas example_defs = mk_place_def mk_leg_def mk_itinerary_def get_or_def empty_place_def

lemmas transfer_point_defs = is_transfer_def start_point_def intermediate_point_def
  destination_point_def lower_def lower_char_def

lemmas segment_defs = create_route_segments_def create_route_segments_spans_def ends_at_def
  make_segment_def slice_def leg_spans_def

section \<open>Binary64 rounding\<close>

lemma float_exponent_eq:
  assumes "2 powr of_int k \<le> \<bar>x\<bar>" and "\<bar>x\<bar> < 2 powr of_int (k + 1)" and "- 1022 \<le> k"
  shows "float_exponent x = k"
proof -
  have "(0::real) < 2 powr of_int k" by simp
  then have "0 < \<bar>x\<bar>" using assms(1) by linarith
  moreover have "\<bar>x\<bar> < 2 powr (of_int k + 1)" using assms(2) by simp
  ultimately have "\<lfloor>log 2 \<bar>x\<bar>\<rfloor> = k"
    using assms(1) floor_log_eq_powr_iff[of "\<bar>x\<bar>" 2 k] by simp
  then show ?thesis using assms(3) by (simp add: float_exponent_def)
qed

lemma two_powr_neg: "(2::real) powr of_int (- int n) = 1 / 2 ^ n"
proof -
  have "(2::real) powr of_int (- int n) = 1 / 2 powr real n"
    by (simp add: powr_minus_divide)
  then show ?thesis by (simp add: powr_realpow)
qed

lemma two_powr_pos: "(2::real) powr of_int (int n) = 2 ^ n"
  by (simp add: powr_realpow)

lemma fl_ge_one:
  assumes "2 ^ k \<le> \<bar>x\<bar>" and "\<bar>x\<bar> < 2 ^ (k + 1)" and "k \<le> 52"
  shows "fl x = of_int (round_half_even (x * 2 ^ (52 - k))) / 2 ^ (52 - k)"
proof -
  have a: "2 powr of_int (int k) \<le> \<bar>x\<bar>"
    using assms(1) by (simp only: two_powr_pos)
  have "int k + 1 = int (k + 1)" by simp
  then have b: "\<bar>x\<bar> < 2 powr of_int (int k + 1)"
    using assms(2) by (simp only: two_powr_pos)
  have e: "float_exponent x = int k"
    by (rule float_exponent_eq[OF a b]) simp
  have nz: "x \<noteq> 0"
  proof
    assume "x = 0"
    with assms(1) have "(2::real) ^ k \<le> 0" by simp
    moreover have "(0::real) < 2 ^ k" by simp
    ultimately show False by linarith
  qed
  have "int k - 52 = - int (52 - k)" using assms(3) by simp
  then have u: "(2::real) powr of_int (int k - 52) = 1 / 2 ^ (52 - k)"
    by (simp only: two_powr_neg)
  show ?thesis
    unfolding fl_def e u using nz by simp
qed

lemma fl_lt_one:
  assumes "1 / 2 ^ j \<le> \<bar>x\<bar>" and "\<bar>x\<bar> < 2 / 2 ^ j" and "j \<le> 1022"
  shows "fl x = of_int (round_half_even (x * 2 ^ (52 + j))) / 2 ^ (52 + j)"
proof -
  have a: "2 powr of_int (- int j) \<le> \<bar>x\<bar>"
    using assms(1) by (simp only: two_powr_neg)
  have "(2::real) powr of_int (- int j + 1) = 2 powr (of_int (- int j) + 1)"
    by simp
  also have "\<dots> = 2 powr of_int (- int j) * 2 powr 1"
    by (rule powr_add)
  also have "\<dots> = 2 / 2 ^ j"
    by (simp only: two_powr_neg) simp
  finally have b: "\<bar>x\<bar> < 2 powr of_int (- int j + 1)"
    using assms(2) by simp
  have e: "float_exponent x = - int j"
    by (rule float_exponent_eq[OF a b]) (use assms(3) in simp)
  have nz: "x \<noteq> 0"
  proof
    assume "x = 0"
    with assms(1) have "(1::real) / 2 ^ j \<le> 0" by simp
    moreover have "(0::real) < 1 / 2 ^ j" by simp
    ultimately show False by linarith
  qed
  have "- int j - 52 = - int (52 + j)" by simp
  then have u: "(2::real) powr of_int (- int j - 52) = 1 / 2 ^ (52 + j)"
    by (simp only: two_powr_neg)
  show ?thesis
    unfolding fl_def e u using nz by simp
qed

lemma fl_zero: "fl 0 = 0"
  by (simp add: fl_def)

text \<open>Values used by the examples.\<close>

lemma fl_examples:
  "fl 3 = 3" "fl 4 = 4" "fl 5 = 5" "fl 8 = 8" "fl 10 = 10" "fl (7 / 2) = 7 / 2"
  "fl (21 / 2) = 21 / 2"
  using fl_ge_one[of 1 3] fl_ge_one[of 2 4] fl_ge_one[of 2 5] fl_ge_one[of 3 8]
    fl_ge_one[of 3 10] fl_ge_one[of 1 "7 / 2"] fl_ge_one[of 3 "21 / 2"]
  by (simp_all add: round_half_even_def)

lemma fl_decimals: "fl (29 / 100) = 5224175567749775 / 2 ^ 54"
  using fl_lt_one[of 2 "29 / 100"] by (simp add: round_half_even_def)

section \<open>The transfer-point detector\<close>

lemma str_in_iff: "str_in needle hay \<longleftrightarrow> (\<exists>pre post. hay = pre @ needle @ post)"
proof (induction hay)
  case Nil
  then show ?case by auto
next
  case (Cons c cs)
  show ?case
  proof
    assume "str_in needle (c # cs)"
    then consider "take (length needle) (c # cs) = needle" | "str_in needle cs" by auto
    then show "\<exists>pre post. c # cs = pre @ needle @ post"
    proof cases
      case 1
      then have "c # cs = [] @ needle @ drop (length needle) (c # cs)"
        by (metis append_Nil append_take_drop_id)
      then show ?thesis by blast
    next
      case 2
      then obtain pre post where "cs = pre @ needle @ post" using Cons.IH by blast
      then have "c # cs = (c # pre) @ needle @ post" by simp
      then show ?thesis by blast
    qed
  next
    assume "\<exists>pre post. c # cs = pre @ needle @ post"
    then obtain pre post where eq: "c # cs = pre @ needle @ post" by blast
    show "str_in needle (c # cs)"
    proof (cases pre)
      case Nil
      then have "take (length needle) (c # cs) = needle" using eq by simp
      then show ?thesis by simp
    next
      case (Cons p ps)
      then have "cs = ps @ needle @ post" using eq by simp
      then have "str_in needle cs" using Cons.IH by blast
      then show ?thesis by simp
    qed
  qed
qed

lemma transfer_loop_concat:
  "transfer_loop legs rest acc = acc @ concat (map (emit_at legs) rest)"
  by (induction rest arbitrary: acc) (auto simp: emit_at_def Let_def)

lemma enumerate_butlast_map:
  "enumerate 0 (butlast legs) = map (\<lambda>i. (i, legs ! i)) [0..<length legs - 1]"
  by (rule nth_equalityI) (simp_all add: nth_enumerate_eq nth_butlast)

lemma extract_transfer_points_shape:
  assumes "legs = get_or (itin_legs it) []" and "legs \<noteq> []"
  shows "extract_transfer_points it =
           start_point (hd legs) # concat (map (emit_at legs) (enumerate 0 (butlast legs)))
             @ [destination_point (last legs)]"
  using assms by (simp add: extract_transfer_points_def transfer_loop_concat Let_def)

lemma emit_at_in_result:
  assumes "legs = get_or (itin_legs it) []" and "i + 1 < length legs"
  shows "set (emit_at legs (i, legs ! i)) \<subseteq> set (extract_transfer_points it)"
proof -
  have "legs \<noteq> []" using assms(2) by auto
  moreover have "(i, legs ! i) \<in> set (enumerate 0 (butlast legs))"
    using assms(2) by (simp add: enumerate_butlast_map)
  ultimately show ?thesis
    using extract_transfer_points_shape[OF assms(1)] by auto
qed

text \<open>
  Claim C4 as it is written, refuted. The spec's route identity has four parts. Two bus legs
  of the same mode agree in route code, short name and long name and differ in their
  headsign, so their route identity changes; the stop between them is no major station.
  The detector compares the \<^verbatim>\<open>route\<close> entries only (line 85) and emits no intermediate
  transfer point.
\<close>
theorem headsign_change_emits_no_transfer_point_counterexample:
  "leg_mode (headsign_legs ! 0) = leg_mode (headsign_legs ! 1)
   \<and> spec_route_identity (headsign_legs ! 0) \<noteq> spec_route_identity (headsign_legs ! 1)
   \<and> \<not> str_in ''bahnhof'' (lower (to_name (headsign_legs ! 0)))
   \<and> \<not> str_in ''station'' (lower (to_name (headsign_legs ! 0)))
   \<and> map name (extract_transfer_points (mk_itinerary headsign_legs))
       = [''Wankdorf'', ''Hirschengraben'']"
  by (simp add: headsign_legs_def example_defs extract_transfer_points_def
      transfer_point_defs to_name_def spec_route_identity_def)

text \<open>
  Claim C4, amended. For each adjacent pair of legs \<open>(i, i + 1)\<close> of an itinerary with at least
  one leg, the detector emits an intermediate transfer point at the destination of leg \<open>i\<close>
  exactly when the mode changes, or the route code changes (the legs' \<^verbatim>\<open>route\<close> entries
  differ; short name, long name and headsign are not compared), or the name of that
  destination, with its capital letters turned into small ones, contains one of the
  major-station terms \<^verbatim>\<open>bahnhof\<close> and \<^verbatim>\<open>station\<close>. It emits one point there, however
  many of the three conditions hold, and nothing else between the start point and the
  destination point.
\<close>
theorem transfer_point_iff_change_or_major_station:
  assumes "legs = get_or (itin_legs it) []" and "legs \<noteq> []"
  shows "extract_transfer_points it =
           start_point (hd legs)
           # concat (map (\<lambda>i. if leg_mode (legs ! i) \<noteq> leg_mode (legs ! (i + 1))
                                \<or> leg_route (legs ! i) \<noteq> leg_route (legs ! (i + 1))
                                \<or> (\<exists>term \<in> set major_station_terms. \<exists>pre post.
                                      lower (to_name (legs ! i)) = pre @ term @ post)
                             then [intermediate_point i (legs ! i) (legs ! (i + 1))]
                             else [])
                       [0..<length legs - 1])
           @ [destination_point (last legs)]"
proof -
  have "emit_at legs (i, legs ! i) =
          (if leg_mode (legs ! i) \<noteq> leg_mode (legs ! (i + 1))
              \<or> leg_route (legs ! i) \<noteq> leg_route (legs ! (i + 1))
              \<or> (\<exists>term \<in> set major_station_terms. \<exists>pre post.
                    lower (to_name (legs ! i)) = pre @ term @ post)
           then [intermediate_point i (legs ! i) (legs ! (i + 1))] else [])" for i
    by (simp add: emit_at_def is_transfer_def to_name_def major_station_terms_def
        str_in_iff Let_def)
  then show ?thesis
    using extract_transfer_points_shape[OF assms]
    by (simp add: enumerate_butlast_map comp_def)
qed

text \<open>
  On four bus legs of one route the two stops named \<^verbatim>\<open>Bern, BAHNHOF\<close> and
  \<^verbatim>\<open>Europaplatz Station\<close> become transfer points by their names alone, whatever the case of
  the letters, and the stop between them does not; on the walk, tram, walk itinerary each
  boundary is a change of mode.
\<close>
theorem transfer_point_iff_change_or_major_station_witness:
  "capital_station_legs \<noteq> []
   \<and> lower ''Bern, BAHNHOF'' = ''bern, bahnhof''
   \<and> map name (extract_transfer_points (mk_itinerary capital_station_legs))
       = [''Wankdorf'', ''Bern, BAHNHOF'', ''Europaplatz Station'', ''Niederwangen'']
   \<and> tram_legs \<noteq> []
   \<and> map name (extract_transfer_points tram_itinerary)
       = [''Home'', ''Zytglogge'', ''Bern, Bahnhof'', ''Office'']"
proof -
  have a: "capital_station_legs = get_or (itin_legs (mk_itinerary capital_station_legs)) []"
    by (simp add: example_defs)
  have b: "capital_station_legs \<noteq> []"
    by (simp add: capital_station_legs_def)
  have c: "lower ''Bern, BAHNHOF'' = ''bern, bahnhof''"
    by (simp add: lower_def lower_char_def)
  have sub: "(\<exists>pre post. hay = pre @ needle @ post) = str_in needle hay" for hay needle :: string
    by (simp add: str_in_iff)
  have d: "map name (extract_transfer_points (mk_itinerary capital_station_legs))
             = [''Wankdorf'', ''Bern, BAHNHOF'', ''Europaplatz Station'', ''Niederwangen'']"
    unfolding transfer_point_iff_change_or_major_station[OF a b]
    by (simp add: capital_station_legs_def mk_place_def mk_leg_def get_or_def empty_place_def
        start_point_def intermediate_point_def destination_point_def to_name_def
        major_station_terms_def sub lower_def lower_char_def)
  have e: "tram_legs \<noteq> []"
    by (simp add: tram_legs_def)
  have f: "map name (extract_transfer_points tram_itinerary)
             = [''Home'', ''Zytglogge'', ''Bern, Bahnhof'', ''Office'']"
    using transfer_point_iff_change_or_major_station[of tram_legs tram_itinerary]
    by (simp add: tram_itinerary_def tram_legs_def example_defs start_point_def
        intermediate_point_def destination_point_def)
  show ?thesis using b c d e f by blast
qed

section \<open>The segment builder\<close>

lemma ends_in_order_tail: "ends_in_order ls (tp # tps) \<Longrightarrow> ends_in_order ls tps"
proof (induction ls arbitrary: tp tps)
  case Nil then show ?case by simp
next
  case (Cons l ls)
  show ?case
  proof (cases tps)
    case Nil then show ?thesis by simp
  next
    case (Cons tp' tps')
    from Cons.prems consider "ends_in_order ls tps" | "ends_in_order ls (tp # tps)" by auto
    then show ?thesis
    proof cases
      case 1 then show ?thesis using Cons by simp
    next
      case 2
      then have "ends_in_order ls tps" using Cons.IH by blast
      then show ?thesis using Cons by simp
    qed
  qed
qed

lemma ends_in_order_skip: "ends_in_order ls tps \<Longrightarrow> ends_in_order (l # ls) tps"
  by (cases tps) auto

lemma ends_at_intermediate: "ends_at l (intermediate_point i l nl)"
  by (simp add: ends_at_def intermediate_point_def Let_def)

lemma ends_at_destination: "ends_at l (destination_point l)"
  by (simp add: ends_at_def destination_point_def Let_def)

lemma ends_in_order_emitted:
  "ends_in_order (map snd es @ [ll]) (concat (map (emit_at legs) es) @ [destination_point ll])"
proof (induction es)
  case Nil
  then show ?case by (simp add: ends_at_destination)
next
  case (Cons e es)
  show ?case
  proof (cases "is_transfer (snd e) (legs ! (fst e + 1))")
    case True
    then show ?thesis using Cons by (simp add: emit_at_def ends_at_intermediate)
  next
    case False
    then show ?thesis using Cons by (simp add: emit_at_def ends_in_order_skip)
  qed
qed

lemma segment_loop_length:
  "ends_in_order (map snd rest) (drop tidx tps) \<Longrightarrow>
   length (segment_loop legs tps rest css tidx segs) = length segs + (length tps - tidx)"
proof (induction rest arbitrary: css tidx segs)
  case Nil
  then show ?case by (cases "drop tidx tps") auto
next
  case (Cons e rest)
  obtain k l where e: "e = (k, l)" by (cases e)
  show ?case
  proof (cases "tidx < length tps")
    case False
    then have "ends_in_order (map snd rest) (drop tidx tps)" by simp
    then show ?thesis using Cons.IH False e by simp
  next
    case True
    then have d: "drop tidx tps = tps ! tidx # drop (Suc tidx) tps"
      by (simp add: Cons_nth_drop_Suc)
    show ?thesis
    proof (cases "ends_at l (tps ! tidx)")
      case True
      have "ends_in_order (map snd rest) (drop (Suc tidx) tps)"
        using Cons.prems d e ends_in_order_tail by auto
      then show ?thesis using Cons.IH True \<open>tidx < length tps\<close> e by simp
    next
      case False
      then have "ends_in_order (map snd rest) (drop tidx tps)"
        using Cons.prems d e by auto
      then show ?thesis using Cons.IH False e by simp
    qed
  qed
qed

lemma segment_count:
  assumes "legs = get_or (itin_legs it) []" and "legs \<noteq> []"
  shows "length (create_route_segments it (extract_transfer_points it)) + 1
           = length (extract_transfer_points it)"
proof -
  let ?mid = "concat (map (emit_at legs) (enumerate 0 (butlast legs)))"
  let ?tps = "extract_transfer_points it"
  have shape: "?tps = start_point (hd legs) # ?mid @ [destination_point (last legs)]"
    using assms by (rule extract_transfer_points_shape)
  have "ends_in_order (map snd (enumerate 0 (butlast legs)) @ [last legs])
          (?mid @ [destination_point (last legs)])"
    by (rule ends_in_order_emitted)
  then have "ends_in_order (map snd (enumerate 0 legs)) (drop 1 ?tps)"
    using assms(2) shape by simp
  then have "length (segment_loop legs ?tps (enumerate 0 legs) 0 1 []) = length ?tps - 1"
    using segment_loop_length by fastforce
  moreover have "2 \<le> length ?tps" using shape by simp
  ultimately show ?thesis
    using assms(1) by (simp add: create_route_segments_def create_route_segments_spans_def Let_def)
qed

text \<open>
  Claim C2. For every itinerary with at least one leg, the number of route segments is the
  number of transfer points minus one; an itinerary of a single leg has exactly two transfer
  points and one segment.
\<close>
theorem segment_count_is_transfer_point_count_minus_one:
  assumes "get_or (itin_legs it) [] \<noteq> []"
  shows "int (length (create_route_segments it (extract_transfer_points it)))
           = int (length (extract_transfer_points it)) - 1
         \<and> (length (get_or (itin_legs it) []) = 1 \<longrightarrow>
              length (extract_transfer_points it) = 2
              \<and> length (create_route_segments it (extract_transfer_points it)) = 1)"
proof -
  let ?legs = "get_or (itin_legs it) []"
  have count: "length (create_route_segments it (extract_transfer_points it)) + 1
                 = length (extract_transfer_points it)"
    using assms segment_count by blast
  have "length (extract_transfer_points it) = 2" if "length ?legs = 1"
  proof -
    from that obtain l where "?legs = [l]" by (cases ?legs) auto
    then show ?thesis
      using extract_transfer_points_shape[of ?legs it] by simp
  qed
  then show ?thesis using count by auto
qed

theorem segment_count_is_transfer_point_count_minus_one_witness:
  "get_or (itin_legs walk_itinerary) [] \<noteq> []
   \<and> length (get_or (itin_legs walk_itinerary) []) = 1
   \<and> length (extract_transfer_points walk_itinerary) = 2
   \<and> length (create_route_segments walk_itinerary (extract_transfer_points walk_itinerary)) = 1
   \<and> get_or (itin_legs tram_itinerary) [] \<noteq> []
   \<and> length (extract_transfer_points tram_itinerary) = 4
   \<and> length (create_route_segments tram_itinerary (extract_transfer_points tram_itinerary)) = 3"
proof -
  have w: "get_or (itin_legs walk_itinerary) [] \<noteq> []"
    and w1: "length (get_or (itin_legs walk_itinerary) []) = 1"
    by (simp_all add: walk_itinerary_def example_defs)
  have t: "get_or (itin_legs tram_itinerary) [] \<noteq> []"
    by (simp add: tram_itinerary_def tram_legs_def example_defs)
  have t4: "length (extract_transfer_points tram_itinerary) = 4"
    by (simp add: tram_itinerary_def tram_legs_def example_defs extract_transfer_points_def
        transfer_point_defs)
  show ?thesis
    using segment_count_is_transfer_point_count_minus_one[OF w]
      segment_count_is_transfer_point_count_minus_one[OF t] w w1 t t4
    by simp
qed

text \<open>
  Claim C3 asks that the leg spans of the segments cover every leg exactly once. The segment
  builder closes a segment at the first leg that ends within the tolerance of the next
  transfer point, and stops once the last transfer point is matched. On the walk of three
  legs that passes the market and later ends there, the first leg already ends at the
  destination point: one segment with the span \<open>(0, 1)\<close> is built, ten minutes long, and the
  two legs after it belong to no segment.
\<close>
theorem detour_itinerary_legs_not_covered:
  "length detour_legs = 3
   \<and> length (extract_transfer_points detour_itinerary) = 2
   \<and> leg_spans detour_itinerary = [(0, 1)]
   \<and> map duration_min (create_route_segments detour_itinerary
                          (extract_transfer_points detour_itinerary)) = [10]"
  by (simp add: detour_itinerary_def detour_legs_def example_defs extract_transfer_points_def
      transfer_point_defs segment_defs py_round_def round_half_even_def fdiv_def fl_examples)

text \<open>
  Claim C9 as it is written, refuted: in an itinerary of two legs of the same route, whose
  boundary is no major station, the first leg has lost its mode entry. The detector emits an
  intermediate transfer point at the boundary; with the mode in place it emits none.
\<close>
theorem missing_mode_emits_transfer_point_counterexample:
  "leg_mode (no_mode_legs ! 0) = None
   \<and> leg_route (no_mode_legs ! 0) = leg_route (no_mode_legs ! 1)
   \<and> \<not> str_in ''bahnhof'' (lower (to_name (no_mode_legs ! 0)))
   \<and> \<not> str_in ''station'' (lower (to_name (no_mode_legs ! 0)))
   \<and> map name (extract_transfer_points (mk_itinerary no_mode_legs))
       = [''Wankdorf'', ''Zytglogge'', ''Hirschengraben'']
   \<and> map name (extract_transfer_points (mk_itinerary bus_legs))
       = [''Wankdorf'', ''Hirschengraben'']"
  by (simp add: no_mode_legs_def bus_legs_def example_defs extract_transfer_points_def
      transfer_point_defs to_name_def)

text \<open>
  Claim C9, amended. When a leg's mode entry is missing, the detector does not skip the leg
  boundary: it applies its ordinary test, in which the missing mode is the null value and
  differs from every mode that is present. A leg with missing mode data next to a leg that
  has a mode therefore does, by itself, cause an intermediate transfer point to be emitted
  at that boundary, one point as at any other transfer.
\<close>
theorem missing_mode_counts_as_mode_change:
  assumes "legs = get_or (itin_legs it) []" and "i + 1 < length legs"
    and "(leg_mode (legs ! i) = None) \<noteq> (leg_mode (legs ! (i + 1)) = None)"
  shows "is_transfer (legs ! i) (legs ! (i + 1))
         \<and> extract_transfer_points it =
             start_point (hd legs)
             # concat (map (\<lambda>j. if is_transfer (legs ! j) (legs ! (j + 1))
                                  then [intermediate_point j (legs ! j) (legs ! (j + 1))]
                                  else [])
                         [0..<length legs - 1])
             @ [destination_point (last legs)]
         \<and> i \<in> set [0..<length legs - 1]"
proof -
  have "leg_mode (legs ! i) \<noteq> leg_mode (legs ! (i + 1))" using assms(3) by auto
  then have t: "is_transfer (legs ! i) (legs ! (i + 1))"
    by (simp add: is_transfer_def Let_def)
  have ne: "legs \<noteq> []" using assms(2) by auto
  have "emit_at legs (j, legs ! j) =
          (if is_transfer (legs ! j) (legs ! (j + 1))
           then [intermediate_point j (legs ! j) (legs ! (j + 1))] else [])" for j
    by (simp add: emit_at_def)
  then have shape: "extract_transfer_points it =
             start_point (hd legs)
             # concat (map (\<lambda>j. if is_transfer (legs ! j) (legs ! (j + 1))
                                  then [intermediate_point j (legs ! j) (legs ! (j + 1))]
                                  else [])
                         [0..<length legs - 1])
             @ [destination_point (last legs)]"
    using extract_transfer_points_shape[OF assms(1) ne]
    by (simp add: enumerate_butlast_map comp_def)
  have "i \<in> set [0..<length legs - 1]" using assms(2) by simp
  then show ?thesis using t shape by blast
qed

theorem missing_mode_counts_as_mode_change_witness:
  "0 + 1 < length no_mode_legs
   \<and> (leg_mode (no_mode_legs ! 0) = None) \<noteq> (leg_mode (no_mode_legs ! (0 + 1)) = None)
   \<and> leg_route (no_mode_legs ! 0) = leg_route (no_mode_legs ! (0 + 1))
   \<and> is_transfer (no_mode_legs ! 0) (no_mode_legs ! (0 + 1))
   \<and> \<not> is_transfer (bus_legs ! 0) (bus_legs ! (0 + 1))
   \<and> map name (extract_transfer_points (mk_itinerary no_mode_legs))
       = [''Wankdorf'', ''Zytglogge'', ''Hirschengraben'']"
proof -
  have a: "no_mode_legs = get_or (itin_legs (mk_itinerary no_mode_legs)) []"
    by (simp add: example_defs)
  have b: "0 + 1 < length no_mode_legs"
    and c: "(leg_mode (no_mode_legs ! 0) = None) \<noteq> (leg_mode (no_mode_legs ! (0 + 1)) = None)"
    and r: "leg_route (no_mode_legs ! 0) = leg_route (no_mode_legs ! (0 + 1))"
    by (simp_all add: no_mode_legs_def example_defs)
  have n: "\<not> is_transfer (bus_legs ! 0) (bus_legs ! (0 + 1))"
    by (simp add: bus_legs_def example_defs transfer_point_defs)
  note inst = missing_mode_counts_as_mode_change[OF a b c]
  have t: "is_transfer (no_mode_legs ! 0) (no_mode_legs ! (0 + 1))"
    using inst by blast
  have e: "extract_transfer_points (mk_itinerary no_mode_legs) =
             start_point (hd no_mode_legs)
             # concat (map (\<lambda>j. if is_transfer (no_mode_legs ! j) (no_mode_legs ! (j + 1))
                                  then [intermediate_point j (no_mode_legs ! j) (no_mode_legs ! (j + 1))]
                                  else [])
                         [0..<length no_mode_legs - 1])
             @ [destination_point (last no_mode_legs)]"
    using inst by blast
  have l: "length no_mode_legs - 1 = 1" by (simp add: no_mode_legs_def)
  have "map name (extract_transfer_points (mk_itinerary no_mode_legs))
          = [''Wankdorf'', ''Zytglogge'', ''Hirschengraben'']"
    unfolding e l using t
    by (simp add: no_mode_legs_def example_defs start_point_def intermediate_point_def
        destination_point_def)
  then show ?thesis using b c r t n by blast
qed

section \<open>The provider gateways\<close>

lemma calculate_distance_same_longitude:
  assumes "\<bar>lat2 - lat1\<bar> < 180"
  shows "calculate_distance lat1 lon lat2 lon = Inr (6371000 * radians \<bar>lat2 - lat1\<bar>)"
proof -
  define x where "x = radians (lat2 - lat1) / 2"
  have ax: "\<bar>x\<bar> = radians \<bar>lat2 - lat1\<bar> / 2"
    by (simp add: x_def radians_def abs_mult)
  have "\<bar>x\<bar> < pi / 2"
    using assms by (simp add: ax radians_def)
  then have xb: "- (pi / 2) < \<bar>x\<bar>" "\<bar>x\<bar> < pi / 2" "- (pi / 2) < x" "x < pi / 2" by auto
  have cpos: "0 < cos x" using xb by (simp add: cos_gt_zero_pi)
  have s1: "sqrt ((sin x)\<^sup>2) = \<bar>sin x\<bar>" by simp
  have s2: "sqrt (1 - (sin x)\<^sup>2) = cos x"
    using cpos by (simp add: cos_squared_eq[symmetric])
  have "\<bar>sin x\<bar> = sin \<bar>x\<bar>"
  proof (cases "0 \<le> x")
    case True
    then have "0 \<le> sin x" using xb by (intro sin_ge_zero) auto
    then show ?thesis using True by simp
  next
    case False
    then have "0 \<le> sin (- x)" using xb by (intro sin_ge_zero) auto
    then show ?thesis using False by simp
  qed
  then have "\<bar>sin x\<bar> / cos x = tan \<bar>x\<bar>"
    by (simp add: tan_def)
  then have "arctan (\<bar>sin x\<bar> / cos x) = \<bar>x\<bar>"
    using xb by (simp add: arctan_tan)
  then have at: "atan2 (sqrt ((sin x)\<^sup>2)) (sqrt (1 - (sin x)\<^sup>2)) = \<bar>x\<bar>"
    unfolding s1 s2 using cpos by (simp add: atan2_def)
  have le1: "(sin x)\<^sup>2 \<le> 1" by (simp add: abs_square_le_1 abs_sin_le_one)
  have r0: "radians (lon - lon) = 0" by (simp add: radians_def)
  have a: "(sin x)\<^sup>2 + cos (radians lat1) * cos (radians lat2) * (sin (radians (lon - lon) / 2))\<^sup>2
             = (sin x)\<^sup>2"
    unfolding r0 by simp
  show ?thesis
    unfolding calculate_distance_def Let_def x_def[symmetric] a
    using at le1 by (simp add: ax)
qed

lemma calculate_distance_same_point: "calculate_distance lat lon lat lon = Inr 0"
  using calculate_distance_same_longitude[of lat lat lon] by (simp add: radians_def)

lemma nearby_stations_loop_step:
  "nearby_stations_loop lat lon r oa owb (x # xs) acc =
     (if (oa \<and> \<not> is_active x) \<or> (owb \<and> \<not> has_bikes_available x)
      then nearby_stations_loop lat lon r oa owb xs acc
      else case calculate_distance lat lon (st_latitude x) (st_longitude x) of
             Inl e \<Rightarrow> Inl e
           | Inr d \<Rightarrow> nearby_stations_loop lat lon r oa owb xs
                        (if d \<le> r then acc @ [(x, d)] else acc))"
  by (simp split: sum.splits)

lemma nearby_stations_loop_error:
  "nearby_stations_loop lat lon r1 oa owb xs acc1 = Inl e
     \<longleftrightarrow> nearby_stations_loop lat lon r2 oa owb xs acc2 = Inl e"
proof (induction xs arbitrary: acc1 acc2)
  case Nil
  then show ?case by simp
next
  case (Cons x xs)
  show ?case
    unfolding nearby_stations_loop_step
    using Cons.IH by (simp split: sum.splits)
qed

lemma nearby_stations_loop_mono:
  "nearby_stations_loop lat lon r1 oa owb xs acc1 = Inr res1 \<Longrightarrow>
   nearby_stations_loop lat lon r2 oa owb xs acc2 = Inr res2 \<Longrightarrow>
   r1 \<le> r2 \<Longrightarrow> set acc1 \<subseteq> set acc2 \<Longrightarrow> set res1 \<subseteq> set res2"
proof (induction xs arbitrary: acc1 acc2)
  case Nil
  then show ?case by simp
next
  case (Cons x xs)
  show ?case
  proof (cases "(oa \<and> \<not> is_active x) \<or> (owb \<and> \<not> has_bikes_available x)")
    case True
    then have "nearby_stations_loop lat lon r1 oa owb xs acc1 = Inr res1"
      and "nearby_stations_loop lat lon r2 oa owb xs acc2 = Inr res2"
      using Cons.prems(1,2) unfolding nearby_stations_loop_step by simp_all
    then show ?thesis using Cons.IH Cons.prems(3,4) by blast
  next
    case False
    show ?thesis
    proof (cases "calculate_distance lat lon (st_latitude x) (st_longitude x)")
      case (Inl e)
      then show ?thesis using Cons.prems(1) False unfolding nearby_stations_loop_step by simp
    next
      case (Inr d)
      let ?a1 = "if d \<le> r1 then acc1 @ [(x, d)] else acc1"
      let ?a2 = "if d \<le> r2 then acc2 @ [(x, d)] else acc2"
      have 1: "nearby_stations_loop lat lon r1 oa owb xs ?a1 = Inr res1"
        and 2: "nearby_stations_loop lat lon r2 oa owb xs ?a2 = Inr res2"
        using Cons.prems(1,2) False Inr unfolding nearby_stations_loop_step by simp_all
      have "set ?a1 \<subseteq> set ?a2" using Cons.prems(3,4) by auto
      then show ?thesis using Cons.IH[OF 1 2 Cons.prems(3)] by blast
    qed
  qed
qed

lemma nearby_stations_loop_within:
  "nearby_stations_loop lat lon r oa owb xs acc = Inr res \<Longrightarrow>
   \<forall>(s, d) \<in> set acc. in_radius lat lon r (st_latitude s) (st_longitude s) d \<Longrightarrow>
   \<forall>(s, d) \<in> set res. in_radius lat lon r (st_latitude s) (st_longitude s) d"
proof (induction xs arbitrary: acc)
  case Nil
  then show ?case by simp
next
  case (Cons x xs)
  show ?case
  proof (cases "(oa \<and> \<not> is_active x) \<or> (owb \<and> \<not> has_bikes_available x)")
    case True
    then have "nearby_stations_loop lat lon r oa owb xs acc = Inr res"
      using Cons.prems(1) unfolding nearby_stations_loop_step by simp
    then show ?thesis using Cons.IH Cons.prems(2) by blast
  next
    case False
    show ?thesis
    proof (cases "calculate_distance lat lon (st_latitude x) (st_longitude x)")
      case (Inl e)
      then show ?thesis using Cons.prems(1) False unfolding nearby_stations_loop_step by simp
    next
      case (Inr d)
      let ?a = "if d \<le> r then acc @ [(x, d)] else acc"
      have 1: "nearby_stations_loop lat lon r oa owb xs ?a = Inr res"
        using Cons.prems(1) False Inr unfolding nearby_stations_loop_step by simp
      have "\<forall>(s, d) \<in> set ?a. in_radius lat lon r (st_latitude s) (st_longitude s) d"
        using Cons.prems(2) Inr by (auto simp: in_radius_def)
      then show ?thesis using Cons.IH[OF 1] by blast
    qed
  qed
qed

lemma nearby_scooters_loop_step:
  "nearby_scooters_loop lat lon r oa mb (x # xs) acc =
     (if (oa \<and> \<not> is_available x) \<or> battery_too_low mb x
      then nearby_scooters_loop lat lon r oa mb xs acc
      else case calculate_distance lat lon (sc_latitude x) (sc_longitude x) of
             Inl e \<Rightarrow> Inl e
           | Inr d \<Rightarrow> nearby_scooters_loop lat lon r oa mb xs
                        (if d \<le> r then acc @ [(x, d)] else acc))"
  by (simp split: sum.splits)

lemma nearby_scooters_loop_error:
  "nearby_scooters_loop lat lon r1 oa mb xs acc1 = Inl e
     \<longleftrightarrow> nearby_scooters_loop lat lon r2 oa mb xs acc2 = Inl e"
proof (induction xs arbitrary: acc1 acc2)
  case Nil
  then show ?case by simp
next
  case (Cons x xs)
  show ?case
    unfolding nearby_scooters_loop_step
    using Cons.IH by (simp split: sum.splits)
qed

lemma nearby_scooters_loop_mono:
  "nearby_scooters_loop lat lon r1 oa mb xs acc1 = Inr res1 \<Longrightarrow>
   nearby_scooters_loop lat lon r2 oa mb xs acc2 = Inr res2 \<Longrightarrow>
   r1 \<le> r2 \<Longrightarrow> set acc1 \<subseteq> set acc2 \<Longrightarrow> set res1 \<subseteq> set res2"
proof (induction xs arbitrary: acc1 acc2)
  case Nil
  then show ?case by simp
next
  case (Cons x xs)
  show ?case
  proof (cases "(oa \<and> \<not> is_available x) \<or> battery_too_low mb x")
    case True
    then have "nearby_scooters_loop lat lon r1 oa mb xs acc1 = Inr res1"
      and "nearby_scooters_loop lat lon r2 oa mb xs acc2 = Inr res2"
      using Cons.prems(1,2) unfolding nearby_scooters_loop_step by simp_all
    then show ?thesis using Cons.IH Cons.prems(3,4) by blast
  next
    case False
    show ?thesis
    proof (cases "calculate_distance lat lon (sc_latitude x) (sc_longitude x)")
      case (Inl e)
      then show ?thesis using Cons.prems(1) False unfolding nearby_scooters_loop_step by simp
    next
      case (Inr d)
      let ?a1 = "if d \<le> r1 then acc1 @ [(x, d)] else acc1"
      let ?a2 = "if d \<le> r2 then acc2 @ [(x, d)] else acc2"
      have 1: "nearby_scooters_loop lat lon r1 oa mb xs ?a1 = Inr res1"
        and 2: "nearby_scooters_loop lat lon r2 oa mb xs ?a2 = Inr res2"
        using Cons.prems(1,2) False Inr unfolding nearby_scooters_loop_step by simp_all
      have "set ?a1 \<subseteq> set ?a2" using Cons.prems(3,4) by auto
      then show ?thesis using Cons.IH[OF 1 2 Cons.prems(3)] by blast
    qed
  qed
qed

lemma nearby_scooters_loop_within:
  "nearby_scooters_loop lat lon r oa mb xs acc = Inr res \<Longrightarrow>
   \<forall>(s, d) \<in> set acc. in_radius lat lon r (sc_latitude s) (sc_longitude s) d \<Longrightarrow>
   \<forall>(s, d) \<in> set res. in_radius lat lon r (sc_latitude s) (sc_longitude s) d"
proof (induction xs arbitrary: acc)
  case Nil
  then show ?case by simp
next
  case (Cons x xs)
  show ?case
  proof (cases "(oa \<and> \<not> is_available x) \<or> battery_too_low mb x")
    case True
    then have "nearby_scooters_loop lat lon r oa mb xs acc = Inr res"
      using Cons.prems(1) unfolding nearby_scooters_loop_step by simp
    then show ?thesis using Cons.IH Cons.prems(2) by blast
  next
    case False
    show ?thesis
    proof (cases "calculate_distance lat lon (sc_latitude x) (sc_longitude x)")
      case (Inl e)
      then show ?thesis using Cons.prems(1) False unfolding nearby_scooters_loop_step by simp
    next
      case (Inr d)
      let ?a = "if d \<le> r then acc @ [(x, d)] else acc"
      have 1: "nearby_scooters_loop lat lon r oa mb xs ?a = Inr res"
        using Cons.prems(1) False Inr unfolding nearby_scooters_loop_step by simp
      have "\<forall>(s, d) \<in> set ?a. in_radius lat lon r (sc_latitude s) (sc_longitude s) d"
        using Cons.prems(2) Inr by (auto simp: in_radius_def)
      then show ?thesis using Cons.IH[OF 1] by blast
    qed
  qed
qed

lemma find_nearby_stations_cases:
  "(\<exists>e. find_nearby_stations lat lon xs r oa owb = Inl e
         \<and> nearby_stations_loop lat lon r oa owb xs [] = Inl e)
   \<or> (\<exists>res. find_nearby_stations lat lon xs r oa owb = Inr (sort_key snd res)
         \<and> nearby_stations_loop lat lon r oa owb xs [] = Inr res)"
  by (cases "nearby_stations_loop lat lon r oa owb xs []") (simp_all add: find_nearby_stations_def)

lemma find_nearby_scooters_cases:
  "(\<exists>e. find_nearby_scooters lat lon xs r oa mb = Inl e
         \<and> nearby_scooters_loop lat lon r oa mb xs [] = Inl e)
   \<or> (\<exists>res. find_nearby_scooters lat lon xs r oa mb = Inr (sort_key snd res)
         \<and> nearby_scooters_loop lat lon r oa mb xs [] = Inr res)"
  by (cases "nearby_scooters_loop lat lon r oa mb xs []") (simp_all add: find_nearby_scooters_def)

lemma find_nearby_stations_monotone:
  assumes "r1 \<le> r2" and "find_nearby_stations lat lon xs r1 oa owb = Inr res1"
  shows "\<exists>res2. find_nearby_stations lat lon xs r2 oa owb = Inr res2 \<and> set res1 \<subseteq> set res2"
proof -
  obtain l1 where l1: "nearby_stations_loop lat lon r1 oa owb xs [] = Inr l1" "res1 = sort_key snd l1"
    using find_nearby_stations_cases[of lat lon xs r1 oa owb] assms(2) by auto
  have "\<nexists>e. nearby_stations_loop lat lon r2 oa owb xs [] = Inl e"
    using l1(1) nearby_stations_loop_error[of lat lon r1 oa owb xs "[]" _ r2 "[]"] by auto
  then obtain l2 where l2: "nearby_stations_loop lat lon r2 oa owb xs [] = Inr l2"
    by (cases "nearby_stations_loop lat lon r2 oa owb xs []") auto
  have "set l1 \<subseteq> set l2"
    using nearby_stations_loop_mono[OF l1(1) l2 assms(1)] by simp
  then show ?thesis using l1(2) l2 by (simp add: find_nearby_stations_def)
qed

lemma find_nearby_stations_within:
  assumes "find_nearby_stations lat lon xs r oa owb = Inr res"
  shows "\<forall>(s, d) \<in> set res. in_radius lat lon r (st_latitude s) (st_longitude s) d"
proof -
  obtain l where l: "nearby_stations_loop lat lon r oa owb xs [] = Inr l" "res = sort_key snd l"
    using find_nearby_stations_cases[of lat lon xs r oa owb] assms by auto
  show ?thesis using nearby_stations_loop_within[OF l(1)] l(2) by simp
qed

lemma find_nearby_scooters_monotone:
  assumes "r1 \<le> r2" and "find_nearby_scooters lat lon xs r1 oa mb = Inr res1"
  shows "\<exists>res2. find_nearby_scooters lat lon xs r2 oa mb = Inr res2 \<and> set res1 \<subseteq> set res2"
proof -
  obtain l1 where l1: "nearby_scooters_loop lat lon r1 oa mb xs [] = Inr l1" "res1 = sort_key snd l1"
    using find_nearby_scooters_cases[of lat lon xs r1 oa mb] assms(2) by auto
  have "\<nexists>e. nearby_scooters_loop lat lon r2 oa mb xs [] = Inl e"
    using l1(1) nearby_scooters_loop_error[of lat lon r1 oa mb xs "[]" _ r2 "[]"] by auto
  then obtain l2 where l2: "nearby_scooters_loop lat lon r2 oa mb xs [] = Inr l2"
    by (cases "nearby_scooters_loop lat lon r2 oa mb xs []") auto
  have "set l1 \<subseteq> set l2"
    using nearby_scooters_loop_mono[OF l1(1) l2 assms(1)] by simp
  then show ?thesis using l1(2) l2 by (simp add: find_nearby_scooters_def)
qed

lemma find_nearby_scooters_within:
  assumes "find_nearby_scooters lat lon xs r oa mb = Inr res"
  shows "\<forall>(s, d) \<in> set res. in_radius lat lon r (sc_latitude s) (sc_longitude s) d"
proof -
  obtain l where l: "nearby_scooters_loop lat lon r oa mb xs [] = Inr l" "res = sort_key snd l"
    using find_nearby_scooters_cases[of lat lon xs r oa mb] assms by auto
  show ?thesis using nearby_scooters_loop_within[OF l(1)] l(2) by simp
qed

text \<open>
  Claim C8. For a fixed candidate list and centre, the nearby search is monotone in the
  radius: when the search with radius \<open>r1\<close> returns, the search with any \<open>r2 \<ge> r1\<close> returns
  too, and with every candidate of the first; and every candidate returned for \<open>r1\<close> comes
  with its Haversine distance from the centre, which is at most \<open>r1\<close>. This holds for
  \<^verbatim>\<open>find_nearby_stations\<close> and for \<^verbatim>\<open>find_nearby_scooters\<close>, whatever their filters.
\<close>
theorem nearby_search_monotone_in_radius:
  assumes "r1 \<le> r2"
  shows "(\<forall>res1. find_nearby_stations lat lon stations r1 only_active only_with_bikes = Inr res1 \<longrightarrow>
            (\<exists>res2. find_nearby_stations lat lon stations r2 only_active only_with_bikes = Inr res2
                     \<and> set res1 \<subseteq> set res2)
            \<and> (\<forall>(s, d) \<in> set res1.
                  d \<le> r1 \<and> calculate_distance lat lon (st_latitude s) (st_longitude s) = Inr d))
       \<and> (\<forall>res1. find_nearby_scooters lat lon scooters r1 only_available min_battery = Inr res1 \<longrightarrow>
            (\<exists>res2. find_nearby_scooters lat lon scooters r2 only_available min_battery = Inr res2
                     \<and> set res1 \<subseteq> set res2)
            \<and> (\<forall>(s, d) \<in> set res1.
                  d \<le> r1 \<and> calculate_distance lat lon (sc_latitude s) (sc_longitude s) = Inr d))"
proof (intro conjI allI impI)
  fix res1
  assume a: "find_nearby_stations lat lon stations r1 only_active only_with_bikes = Inr res1"
  show "\<exists>res2. find_nearby_stations lat lon stations r2 only_active only_with_bikes = Inr res2
                \<and> set res1 \<subseteq> set res2"
    using find_nearby_stations_monotone[OF assms a] .
  show "\<forall>(s, d) \<in> set res1.
          d \<le> r1 \<and> calculate_distance lat lon (st_latitude s) (st_longitude s) = Inr d"
    using find_nearby_stations_within[OF a] by (simp add: in_radius_def)
next
  fix res1
  assume a: "find_nearby_scooters lat lon scooters r1 only_available min_battery = Inr res1"
  show "\<exists>res2. find_nearby_scooters lat lon scooters r2 only_available min_battery = Inr res2
                \<and> set res1 \<subseteq> set res2"
    using find_nearby_scooters_monotone[OF assms a] .
  show "\<forall>(s, d) \<in> set res1.
          d \<le> r1 \<and> calculate_distance lat lon (sc_latitude s) (sc_longitude s) = Inr d"
    using find_nearby_scooters_within[OF a] by (simp add: in_radius_def)
qed

lemma radians_zero: "radians 0 = 0"
  by (simp add: radians_def)

lemma radians_bounds: "0 < x \<Longrightarrow> x / 90 \<le> radians x \<and> radians x < x / 45"
  using pi_ge_two pi_less_4 by (simp add: radians_def field_simps)

lemmas provider_example_defs = mk_station_def mk_scooter_def tp_bahnhof_def tp_office_def
  station_bahnhof_def station_office_def station_north_def
  scooter_42_def scooter_unknown_def scooter_north_def

lemma example_stations_active:
  "is_active station_bahnhof" "is_active station_office" "is_active station_north"
  by (simp_all add: is_active_def provider_example_defs)

lemma example_stations_bikes:
  "has_bikes_available station_bahnhof" "\<not> has_bikes_available station_office"
  "has_bikes_available station_north"
  by (simp_all add: has_bikes_available_def provider_example_defs)

lemma example_scooters_available:
  "is_available scooter_42" "is_available scooter_unknown" "is_available scooter_north"
  by (simp_all add: is_available_def provider_example_defs)

lemma example_distances:
  "calculate_distance (latitude tp_bahnhof) (longitude tp_bahnhof)
     (st_latitude station_bahnhof) (st_longitude station_bahnhof) = Inr 0"
  "calculate_distance (latitude tp_bahnhof) (longitude tp_bahnhof)
     (st_latitude station_north) (st_longitude station_north) = Inr (6371000 * radians (1 / 1000))"
  "calculate_distance (latitude tp_bahnhof) (longitude tp_bahnhof)
     (st_latitude station_office) (st_longitude station_office) = Inr (6371000 * radians (1 / 100))"
  "calculate_distance (latitude tp_office) (longitude tp_office)
     (st_latitude station_bahnhof) (st_longitude station_bahnhof) = Inr (6371000 * radians (1 / 100))"
  "calculate_distance (latitude tp_office) (longitude tp_office)
     (st_latitude station_office) (st_longitude station_office) = Inr 0"
  "calculate_distance (latitude tp_bahnhof) (longitude tp_bahnhof)
     (sc_latitude scooter_42) (sc_longitude scooter_42) = Inr 0"
  "calculate_distance (latitude tp_bahnhof) (longitude tp_bahnhof)
     (sc_latitude scooter_unknown) (sc_longitude scooter_unknown) = Inr 0"
  "calculate_distance (latitude tp_bahnhof) (longitude tp_bahnhof)
     (sc_latitude scooter_north) (sc_longitude scooter_north) = Inr (6371000 * radians (1 / 1000))"
  by (simp_all add: provider_example_defs calculate_distance_same_longitude radians_zero)

lemma example_distance_bounds:
  "\<not> 6371000 * radians (1 / 1000) \<le> 50" "6371000 * radians (1 / 1000) \<le> 300"
  "\<not> radians (1 / 1000) \<le> 0" "\<not> 6371000 * radians (1 / 100) \<le> 300"
  using radians_bounds[of "1 / 1000"] radians_bounds[of "1 / 100"] by simp_all

theorem nearby_search_monotone_in_radius_witness:
  "(50 :: real) \<le> 300
   \<and> find_nearby_stations (latitude tp_bahnhof) (longitude tp_bahnhof)
         [station_north, station_bahnhof] 50 True False
       = Inr [(station_bahnhof, 0)]
   \<and> find_nearby_stations (latitude tp_bahnhof) (longitude tp_bahnhof)
         [station_north, station_bahnhof] 300 True False
       = Inr [(station_bahnhof, 0), (station_north, 6371000 * radians (1 / 1000))]
   \<and> find_nearby_scooters (latitude tp_bahnhof) (longitude tp_bahnhof)
         [scooter_north, scooter_42] 50 True None
       = Inr [(scooter_42, 0)]
   \<and> (\<exists>res2. find_nearby_scooters (latitude tp_bahnhof) (longitude tp_bahnhof)
                 [scooter_north, scooter_42] 300 True None = Inr res2
              \<and> set [(scooter_42, 0)] \<subseteq> set res2)"
proof -
  have le: "(50 :: real) \<le> 300" by simp
  have st50: "find_nearby_stations (latitude tp_bahnhof) (longitude tp_bahnhof)
                [station_north, station_bahnhof] 50 True False = Inr [(station_bahnhof, 0)]"
    by (simp add: find_nearby_stations_def example_stations_active example_distances
        example_distance_bounds)
  have st300: "find_nearby_stations (latitude tp_bahnhof) (longitude tp_bahnhof)
                [station_north, station_bahnhof] 300 True False
                = Inr [(station_bahnhof, 0), (station_north, 6371000 * radians (1 / 1000))]"
    by (simp add: find_nearby_stations_def example_stations_active example_distances
        example_distance_bounds)
  have sc50: "find_nearby_scooters (latitude tp_bahnhof) (longitude tp_bahnhof)
                [scooter_north, scooter_42] 50 True None = Inr [(scooter_42, 0)]"
    by (simp add: find_nearby_scooters_def example_scooters_available example_distances
        example_distance_bounds battery_too_low_def)
  show ?thesis
    using nearby_search_monotone_in_radius[OF le, of "latitude tp_bahnhof" "longitude tp_bahnhof"
        "[station_north, station_bahnhof]" True False "[scooter_north, scooter_42]" True None]
      le st50 st300 sc50
    by blast
qed

section \<open>The alternative finder\<close>

lemma find_alternative_modes_at_transfer_parts:
  "find_alternative_modes_at_transfer tp dest pb es otp r t =
     (fst (publibike_alternatives tp dest pb otp r t)
        @ fst (escooter_alternatives tp dest es otp r (snd (publibike_alternatives tp dest pb otp r t))),
      snd (escooter_alternatives tp dest es otp r (snd (publibike_alternatives tp dest pb otp r t))))"
  by (simp add: find_alternative_modes_at_transfer_def split: prod.splits)

lemma escooter_alternatives_found:
  assumes "get_nearby_scooters (latitude tp) (longitude tp) r client None t = (Inr ((sc, d) # others), t1)"
  shows "escooter_alternatives tp dest (Some client) otp r t =
           ([scooter_alternative sc d (fst (fst (scooter_estimate otp sc d dest t1)))
               (fst (snd (fst (scooter_estimate otp sc d dest t1))))
               (snd (snd (fst (scooter_estimate otp sc d dest t1))))],
            snd (scooter_estimate otp sc d dest t1))"
  using assms by (simp add: escooter_alternatives_def split: prod.splits)

lemma escooter_alternatives_mode:
  "alt \<in> set (fst (escooter_alternatives tp dest es otp r t)) \<Longrightarrow> alt_mode alt = ''e_scooter''"
  by (auto simp: escooter_alternatives_def scooter_alternative_def Let_def
      split: option.splits prod.splits sum.splits if_splits)

lemma publibike_alternatives_mode:
  "alt \<in> set (fst (publibike_alternatives tp dest pb otp r t)) \<Longrightarrow> alt_mode alt = ''publibike''"
  by (auto simp: publibike_alternatives_def bike_alternative_def Let_def
      split: option.splits prod.splits sum.splits if_splits)

lemma publibike_alternatives_nonempty:
  assumes "fst (publibike_alternatives tp dest pb otp r t) \<noteq> []"
  shows "\<exists>c bikes t1 returns t2. pb = Some c
           \<and> get_nearby_bikes (latitude tp) (longitude tp) r c t = (Inr bikes, t1) \<and> bikes \<noteq> []
           \<and> get_nearby_return_stations (latitude dest) (longitude dest) r c t1 = (Inr returns, t2)
           \<and> returns \<noteq> []"
  using assms
  by (auto simp: publibike_alternatives_def split: option.splits prod.splits sum.splits if_splits)

lemma scooter_estimate_routed:
  assumes "plan client t
             \<lparr>req_from_lat = sc_latitude sc, req_from_lon = sc_longitude sc,
              req_to_lat = latitude dest, req_to_lon = longitude dest,
              req_mode = ''WALK'', req_max_walk_distance = 10000, req_num_itineraries = 1\<rparr>
           = Inr resp"
    and "response_itineraries resp = it # its"
  shows "scooter_estimate (Some client) sc w dest t =
           ((fadd (max 3 (py_round (fdiv (parsed_duration_min (parse_otp_itinerary it)) 3) 1))
               (py_round (fdiv w 80) 1),
             Some (fdiv (parsed_walk_distance_m (parse_otp_itinerary it)) 1000),
             py_round (fadd 1.0
               (fmul (max 3 (py_round (fdiv (parsed_duration_min (parse_otp_itinerary it)) 3) 1))
                  (fl 0.29))) 2),
            t + 1)"
  using assms by (simp add: scooter_estimate_def Let_def)

lemma example_station_ids: "station_id station_bahnhof = 1" "station_id station_office = 2"
  by (simp_all add: provider_example_defs)

lemma example_find_nearby:
  "find_nearby_stations (latitude tp_bahnhof) (longitude tp_bahnhof)
     [station_bahnhof, station_office] 300 True False = Inr [(station_bahnhof, 0)]"
  "find_nearby_stations (latitude tp_office) (longitude tp_office)
     [station_bahnhof, station_office] 300 True False = Inr [(station_office, 0)]"
  "find_nearby_stations (latitude tp_bahnhof) (longitude tp_bahnhof)
     [station_bahnhof] 300 True False = Inr [(station_bahnhof, 0)]"
  "find_nearby_stations (latitude tp_office) (longitude tp_office)
     [station_bahnhof] 300 True False = Inr []"
  by (simp_all add: find_nearby_stations_def example_stations_active example_distances
      example_distance_bounds)

lemma example_get_nearby_bikes:
  "get_nearby_bikes (latitude tp_bahnhof) (longitude tp_bahnhof) 300 publibike_up t
     = (Inr [(station_bahnhof, 0)], t + 2)"
  "get_nearby_bikes (latitude tp_bahnhof) (longitude tp_bahnhof) 300 publibike_no_return t
     = (Inr [(station_bahnhof, 0)], t + 2)"
  by (simp_all add: get_nearby_bikes_def publibike_up_def publibike_no_return_def
      example_find_nearby station_details_def example_station_ids example_stations_bikes)

lemma example_get_nearby_return_stations:
  "get_nearby_return_stations (latitude tp_office) (longitude tp_office) 300 publibike_up t
     = (Inr [(station_office, 0)], t + 2)"
  "get_nearby_return_stations (latitude tp_office) (longitude tp_office) 300 publibike_no_return t
     = (Inr [], t + 1)"
  by (simp_all add: get_nearby_return_stations_def publibike_up_def publibike_no_return_def
      example_find_nearby station_details_def example_station_ids)

lemma example_get_nearby_scooters:
  "get_nearby_scooters (latitude tp_bahnhof) (longitude tp_bahnhof) 300 voi_up None t
     = (Inr [(scooter_42, 0)], t + 1)"
  "get_nearby_scooters (latitude tp_bahnhof) (longitude tp_bahnhof) 300 voi_unknown_battery None t
     = (Inr [(scooter_unknown, 0)], t + 1)"
  by (simp_all add: get_nearby_scooters_def get_available_scooters_near_location_def
      voi_up_def voi_unknown_battery_def example_scooters_available battery_too_low_def
      example_distances)

lemma example_publibike_alternatives:
  "publibike_alternatives tp_bahnhof tp_office (Some publibike_up) (Some otp_down) 300 t
     = ([bike_alternative station_bahnhof 0 station_office 0 None None], t + 5)"
  "publibike_alternatives tp_bahnhof tp_office (Some publibike_up) None 300 t
     = ([bike_alternative station_bahnhof 0 station_office 0 None None], t + 4)"
  "publibike_alternatives tp_bahnhof tp_office (Some publibike_no_return) otp 300 t = ([], t + 3)"
  "publibike_alternatives tp_bahnhof tp_office None otp 300 t = ([], t)"
  by (simp_all add: publibike_alternatives_def example_get_nearby_bikes
      example_get_nearby_return_stations bike_estimate_def plan_bicycle_def otp_down_def)

text \<open>
  Claim C1 asks for a default duration of 18 minutes on the bike-share alternative when the
  secondary routing call fails. At the main station, with a bike station there, a return
  station at the destination and a routing service that times out, the alternative is
  produced, but its duration is \<open>None\<close>, as is its distance: the bike block of
  \<^verbatim>\<open>find_alternative_modes_at_transfer\<close> sets no default (its scooter block sets 10).
\<close>
theorem bike_alternative_without_route_has_no_duration:
  "find_alternative_modes_at_transfer tp_bahnhof tp_office (Some publibike_up) None
       (Some otp_down) 300 0
     = ([bike_alternative station_bahnhof 0 station_office 0 None None], 5)
   \<and> alt_mode (bike_alternative station_bahnhof 0 station_office 0 None None) = ''publibike''
   \<and> alt_duration_min (bike_alternative station_bahnhof 0 station_office 0 None None) = None
   \<and> alt_distance_km (bike_alternative station_bahnhof 0 station_office 0 None None) = None
   \<and> alt_est_cost_chf (bike_alternative station_bahnhof 0 station_office 0 None None) = 4"
  by (simp add: find_alternative_modes_at_transfer_parts example_publibike_alternatives
      escooter_alternatives_def bike_alternative_def)

text \<open>
  Claim C7. When an available scooter is found \<open>w\<close> metres from the transfer point and the
  secondary routing call (a walking route from the scooter to the destination) returns an
  itinerary whose parsed duration is \<open>d\<close> minutes, the ride minutes of the scooter
  alternative are \<open>max (3, round (d / 3, 1))\<close>, its estimated duration is the ride minutes
  plus \<open>round (w / 80, 1)\<close>, and its estimated cost is \<open>round (1.0 + 0.29 * ride, 2)\<close>. The
  divisions, the product, the sums and the roundings are those of Python's floats: each
  result is rounded to binary64.
\<close>
theorem scooter_duration_and_cost_formula:
  assumes "publibike_alternatives tp dest pb (Some otp) r t = (bikes, t1)"
    and "get_nearby_scooters (latitude tp) (longitude tp) r es None t1 = (Inr ((sc, w) # others), t2)"
    and "plan otp t2
           \<lparr>req_from_lat = sc_latitude sc, req_from_lon = sc_longitude sc,
            req_to_lat = latitude dest, req_to_lon = longitude dest,
            req_mode = ''WALK'', req_max_walk_distance = 10000, req_num_itineraries = 1\<rparr>
         = Inr resp"
    and "response_itineraries resp = it # its"
    and "d = parsed_duration_min (parse_otp_itinerary it)"
    and "ride = max 3 (py_round (fdiv d 3) 1)"
  shows "\<exists>alt. find_alternative_modes_at_transfer tp dest pb (Some es) (Some otp) r t
                 = (bikes @ [alt], t2 + 1)
           \<and> alt_mode alt = ''e_scooter''
           \<and> alt_duration_min alt = Some (fadd ride (py_round (fdiv w 80) 1))
           \<and> alt_est_cost_chf alt = py_round (fadd 1.0 (fmul (fl 0.29) ride)) 2"
proof -
  have "fmul ride (fl 0.29) = fmul (fl 0.29) ride"
    by (simp add: fmul_def mult.commute)
  then show ?thesis
    using escooter_alternatives_found[OF assms(2), of dest "Some otp"]
      scooter_estimate_routed[OF assms(3,4), of w] assms(1,5,6)
    by (simp add: find_alternative_modes_at_transfer_parts scooter_alternative_def Let_def)
qed

text \<open>
  A route of 630 seconds parses to 10.5 minutes, so the ride is 3.5 minutes. The exact cost
  \<open>1 + 0.29 * 3.5 = 2.015\<close> would round to 2.02; the binary64 product is below 1.015, and
  the cost is the float 2.01. A route of 1203 seconds parses to the float 20.1, although
  \<open>1203 / 60 = 20.05\<close> is a tie over the reals.
\<close>
theorem scooter_duration_and_cost_formula_witness:
  "parsed_duration_min (parse_otp_itinerary
        \<lparr>itin_legs = None, itin_duration = Some 630, itin_walkDistance = Some 3150\<rparr>) = 10.5
   \<and> max 3 (py_round (fdiv 10.5 3) 1) = 3.5
   \<and> (\<exists>alt. find_alternative_modes_at_transfer tp_bahnhof tp_office None (Some voi_up)
                 (Some otp_tie) 300 0 = ([alt], 2)
          \<and> alt_mode alt = ''e_scooter''
          \<and> alt_duration_min alt = Some 3.5
          \<and> alt_est_cost_chf alt = fl 2.01)
   \<and> fl 2.01 = 1131529406376837 / 2 ^ 49
   \<and> fl 2.01 \<noteq> fl 2.02
   \<and> parsed_duration_min (parse_otp_itinerary
        \<lparr>itin_legs = None, itin_duration = Some 1203, itin_walkDistance = None\<rparr>) = fl 20.1
   \<and> fl 20.1 = 2828823515942093 / 2 ^ 47"
proof -
  let ?it = "\<lparr>itin_legs = None, itin_duration = Some 630, itin_walkDistance = Some 3150\<rparr>"
  let ?resp = "\<lparr>resp_plan = Some \<lparr>plan_itineraries = Some [?it]\<rparr>\<rparr>"
  have d: "parsed_duration_min (parse_otp_itinerary ?it) = 10.5"
    by (simp add: parse_otp_itinerary_def get_or_def py_round_def fdiv_def fl_examples
        round_half_even_def)
  have ride: "max 3 (py_round (fdiv 10.5 3) 1) = 3.5"
    by (simp add: py_round_def fdiv_def fl_examples round_half_even_def)
  have walk: "py_round (fdiv 0 80) 1 = 0"
    by (simp add: py_round_def fdiv_def fl_zero round_half_even_def)
  have dur: "fadd 3.5 0 = 3.5"
    by (simp add: fadd_def fl_examples)
  have p1: "fmul (fl 0.29) 3.5 = 4571153621781053 / 2 ^ 52"
    using fl_ge_one[of 0 "5224175567749775 / 2 ^ 54 * (7 / 2)"]
    by (simp add: fmul_def fl_decimals round_half_even_def)
  have p2: "fadd 1.0 (4571153621781053 / 2 ^ 52) = 2268688312287887 / 2 ^ 50"
    using fl_ge_one[of 1 "1 + 4571153621781053 / 2 ^ 52"]
    by (simp add: fadd_def round_half_even_def)
  have p3: "py_round (2268688312287887 / 2 ^ 50) 2 = fl 2.01"
    by (simp add: py_round_def round_half_even_def)
  have cost: "py_round (fadd 1.0 (fmul (fl 0.29) 3.5)) 2 = fl 2.01"
    unfolding p1 p2 p3 ..
  have a: "publibike_alternatives tp_bahnhof tp_office None (Some otp_tie) 300 0 = ([], 0)"
    by (rule example_publibike_alternatives)
  have b: "get_nearby_scooters (latitude tp_bahnhof) (longitude tp_bahnhof) 300 voi_up None 0
             = (Inr ((scooter_42, 0) # []), 1)"
    using example_get_nearby_scooters(1)[of 0] by simp
  have c: "plan otp_tie 1
             \<lparr>req_from_lat = sc_latitude scooter_42, req_from_lon = sc_longitude scooter_42,
              req_to_lat = latitude tp_office, req_to_lon = longitude tp_office,
              req_mode = ''WALK'', req_max_walk_distance = 10000, req_num_itineraries = 1\<rparr>
           = Inr ?resp"
    by (simp add: otp_tie_def)
  have e: "response_itineraries ?resp = ?it # []"
    by (simp add: response_itineraries_def get_or_def)
  obtain alt where alt:
    "find_alternative_modes_at_transfer tp_bahnhof tp_office None (Some voi_up) (Some otp_tie) 300 0
       = ([] @ [alt], 1 + 1)"
    "alt_mode alt = ''e_scooter''"
    "alt_duration_min alt = Some (fadd 3.5 (py_round (fdiv 0 80) 1))"
    "alt_est_cost_chf alt = py_round (fadd 1.0 (fmul (fl 0.29) 3.5)) 2"
    using scooter_duration_and_cost_formula[OF a b c e d[symmetric] ride[symmetric]] by blast
  have 1: "find_alternative_modes_at_transfer tp_bahnhof tp_office None (Some voi_up)
             (Some otp_tie) 300 0 = ([alt], 2)"
    using alt(1) by simp
  have 2: "alt_duration_min alt = Some 3.5" using alt(3) unfolding walk dur .
  have 3: "alt_est_cost_chf alt = fl 2.01" using alt(4) unfolding cost .
  have v1: "fl 2.01 = 1131529406376837 / 2 ^ 49"
    using fl_ge_one[of 1 "2.01"] by (simp add: round_half_even_def)
  have v2: "fl 2.02 = 4548635623644201 / 2 ^ 51"
    using fl_ge_one[of 1 "2.02"] by (simp add: round_half_even_def)
  have v3: "fl 2.01 \<noteq> fl 2.02"
    unfolding v1 v2 by simp
  have v4: "fl 20.1 = 2828823515942093 / 2 ^ 47"
    using fl_ge_one[of 4 "20.1"] by (simp add: round_half_even_def)
  have q0: "parsed_duration_min (parse_otp_itinerary
        \<lparr>itin_legs = None, itin_duration = Some 1203, itin_walkDistance = None\<rparr>)
          = py_round (fdiv 1203 60) 1"
    by (simp add: parse_otp_itinerary_def get_or_def)
  have q1: "fdiv 1203 60 = 5643573283048653 / 2 ^ 48"
    using fl_ge_one[of 4 "1203 / 60"] by (simp add: fdiv_def round_half_even_def)
  have q2: "py_round (5643573283048653 / 2 ^ 48) 1 = fl 20.1"
    by (simp add: py_round_def round_half_even_def)
  have q: "parsed_duration_min (parse_otp_itinerary
        \<lparr>itin_legs = None, itin_duration = Some 1203, itin_walkDistance = None\<rparr>) = fl 20.1"
    unfolding q0 q1 q2 ..
  show ?thesis using d ride 1 2 3 alt(2) v1 v3 v4 q by blast
qed

text \<open>
  Claim C10. When the nearest scooter has no battery level, the scooter alternative reports
  a battery percentage of 100 in its payload, and its summary is the text without the
  battery clause.
\<close>
theorem unknown_battery_reported_as_100:
  assumes "publibike_alternatives tp dest pb otp r t = (bikes, t1)"
    and "get_nearby_scooters (latitude tp) (longitude tp) r es None t1 = (Inr ((sc, w) # others), t2)"
    and "get_battery_percentage sc = None"
  shows "\<exists>alt t3. find_alternative_modes_at_transfer tp dest pb (Some es) otp r t = (bikes @ [alt], t3)
           \<and> alt_mode alt = ''e_scooter''
           \<and> alt_payload alt = ScooterInfo
                \<lparr>sd_id = vehicle_id sc, sd_distance_m = py_int w, sd_battery_percentage = 100,
                 sd_provider = provider_name sc, sd_latitude = sc_latitude sc,
                 sd_longitude = sc_longitude sc\<rparr>
           \<and> alt_summary alt = ''Voi Scooter ('' @ str_int (py_int w) @ ''m away)''"
  using escooter_alternatives_found[OF assms(2), of dest otp] assms(1,3)
  by (simp add: find_alternative_modes_at_transfer_parts scooter_alternative_def Let_def)

theorem unknown_battery_reported_as_100_witness:
  "get_battery_percentage scooter_unknown = None
   \<and> (\<exists>alt. fst (find_alternative_modes_at_transfer tp_bahnhof tp_office None
                    (Some voi_unknown_battery) None 300 0) = [alt]
          \<and> alt_summary alt = ''Voi Scooter (0m away)''
          \<and> (\<exists>info. alt_payload alt = ScooterInfo info \<and> sd_battery_percentage info = 100
                      \<and> sd_id info = ''voi-2''))"
proof -
  have a: "publibike_alternatives tp_bahnhof tp_office None None 300 0 = ([], 0)"
    by (rule example_publibike_alternatives)
  have b: "get_nearby_scooters (latitude tp_bahnhof) (longitude tp_bahnhof) 300
             voi_unknown_battery None 0 = (Inr ((scooter_unknown, 0) # []), 1)"
    using example_get_nearby_scooters(2)[of 0] by simp
  have c: "get_battery_percentage scooter_unknown = None"
    by (simp add: get_battery_percentage_def provider_example_defs)
  have s: "str_int (py_int 0) = ''0''"
    by (simp add: str_int_def py_int_def str_nat.simps digit_char_def)
  have i: "vehicle_id scooter_unknown = ''voi-2''"
    by (simp add: provider_example_defs)
  show ?thesis
    using unknown_battery_reported_as_100[OF a b c] c s i by auto
qed

lemma bikes_details_loop_result:
  "bikes_details_loop client nearby acc t = (res, t') \<Longrightarrow>
   \<forall>(s, d) \<in> set acc. has_bikes_available s \<and> d \<le> r \<Longrightarrow>
   \<forall>(s, d) \<in> set nearby. d \<le> r \<Longrightarrow>
   \<forall>(s, d) \<in> set res. has_bikes_available s \<and> d \<le> r"
proof (induction nearby arbitrary: acc t)
  case Nil
  then show ?case by simp
next
  case (Cons x nearby)
  obtain s d where x: "x = (s, d)" by (cases x)
  have d: "d \<le> r" and rest: "\<forall>(s, d) \<in> set nearby. d \<le> r" using Cons.prems(3) x by auto
  show ?case
  proof (cases "get_station_details client t (station_id s)")
    case (Inl e)
    then have "bikes_details_loop client nearby acc (t + 1) = (res, t')"
      using Cons.prems(1) x by simp
    then show ?thesis using Cons.IH Cons.prems(2) rest by blast
  next
    case (Inr detailed)
    let ?acc = "if has_bikes_available detailed then acc @ [(detailed, d)] else acc"
    have "bikes_details_loop client nearby ?acc (t + 1) = (res, t')"
      using Cons.prems(1) x Inr by (auto split: if_splits)
    moreover have "\<forall>(s, d) \<in> set ?acc. has_bikes_available s \<and> d \<le> r"
      using Cons.prems(2) d by auto
    ultimately show ?thesis using Cons.IH rest by blast
  qed
qed

lemma return_details_loop_result:
  "return_details_loop client nearby acc t = (res, t') \<Longrightarrow>
   \<forall>(s, d) \<in> set acc. d \<le> r \<Longrightarrow>
   \<forall>(s, d) \<in> set nearby. d \<le> r \<Longrightarrow>
   \<forall>(s, d) \<in> set res. d \<le> (r :: real)"
proof (induction nearby arbitrary: acc t)
  case Nil
  then show ?case by simp
next
  case (Cons x nearby)
  obtain s d where x: "x = (s, d)" by (cases x)
  have d: "d \<le> r" and rest: "\<forall>(s, d) \<in> set nearby. d \<le> r" using Cons.prems(3) x by auto
  let ?s = "case get_station_details client t (station_id s) of Inl e \<Rightarrow> s | Inr detailed \<Rightarrow> detailed"
  have "return_details_loop client nearby (acc @ [(?s, d)]) (t + 1) = (res, t')"
    using Cons.prems(1) x by (simp split: sum.splits)
  moreover have "\<forall>(s, d) \<in> set (acc @ [(?s, d)]). d \<le> r"
    using Cons.prems(2) d by auto
  ultimately show ?case using Cons.IH rest by blast
qed

lemma find_nearby_stations_radius:
  assumes "find_nearby_stations lat lon xs r oa owb = Inr res"
  shows "\<forall>(s, d) \<in> set res. d \<le> r"
  using find_nearby_stations_within[OF assms] by (auto simp: in_radius_def)

lemma get_nearby_bikes_result:
  assumes "get_nearby_bikes lat lon r client t = (Inr bikes, t')"
  shows "\<forall>(s, d) \<in> set bikes. has_bikes_available s \<and> d \<le> r"
proof -
  from assms obtain stations nearby where
    n: "find_nearby_stations lat lon stations r True False = Inr nearby"
    and l: "bikes_details_loop client nearby [] (t + 1) = (bikes, t')"
    by (auto simp: get_nearby_bikes_def split: sum.splits prod.splits)
  show ?thesis
    using bikes_details_loop_result[OF l, of r] find_nearby_stations_radius[OF n] by simp
qed

lemma get_nearby_return_stations_result:
  assumes "get_nearby_return_stations lat lon r client t = (Inr returns, t')"
  shows "\<forall>(s, d) \<in> set returns. d \<le> r"
proof -
  from assms obtain stations nearby where
    n: "find_nearby_stations lat lon stations r True False = Inr nearby"
    and l: "return_details_loop client nearby [] (t + 1) = (returns, t')"
    by (auto simp: get_nearby_return_stations_def split: sum.splits prod.splits)
  show ?thesis
    using return_details_loop_result[OF l, of r] find_nearby_stations_radius[OF n] by simp
qed

lemma scooter_distance_loop_result:
  "scooter_distance_loop lat lon mb scooters acc = Inr res \<Longrightarrow>
   fst ` set res \<subseteq> fst ` set acc \<union> set scooters"
proof (induction scooters arbitrary: acc)
  case Nil
  then show ?case by simp
next
  case (Cons x scooters)
  show ?case
  proof (cases "battery_too_low mb x")
    case True
    then show ?thesis using Cons by auto
  next
    case False
    show ?thesis
    proof (cases "calculate_distance lat lon (sc_latitude x) (sc_longitude x)")
      case (Inl e)
      then show ?thesis using Cons.prems False by simp
    next
      case (Inr d)
      then have "scooter_distance_loop lat lon mb scooters (acc @ [(x, d)]) = Inr res"
        using Cons.prems False by simp
      then have "fst ` set res \<subseteq> fst ` set (acc @ [(x, d)]) \<union> set scooters"
        by (rule Cons.IH)
      then show ?thesis by auto
    qed
  qed
qed

lemma get_nearby_scooters_result:
  assumes "get_nearby_scooters lat lon r client mb t = (Inr scooters, t')"
  shows "\<forall>(s, d) \<in> set scooters. is_available s"
proof -
  from assms obtain all_scooters res where
    a: "get_scooters_near_location client t lat lon r = Inr all_scooters"
    and l: "scooter_distance_loop lat lon mb (filter is_available all_scooters) [] = Inr res"
    and s: "scooters = sort_key snd res"
    by (auto simp: get_nearby_scooters_def get_available_scooters_near_location_def
        split: sum.splits prod.splits)
  have "fst ` set res \<subseteq> set (filter is_available all_scooters)"
    using scooter_distance_loop_result[OF l] by simp
  then show ?thesis using s by auto
qed

text \<open>
  Claim C6. A bike-share alternative is among the alternatives found at a transfer point only
  if the bike lookup returned a station near the transfer point (each returned station has
  bikes and lies in the radius) and the return lookup returned a station near the final
  destination; when the return lookup finds none, no bike-share alternative is produced. A
  scooter alternative, for the nearest scooter, is produced whenever the scooter lookup
  returns an (available) scooter, whatever the bike lookups gave.
\<close>
theorem bike_needs_return_dock_scooter_does_not:
  "(\<forall>alt \<in> set (fst (find_alternative_modes_at_transfer tp dest pb es otp r t)).
       alt_mode alt = ''publibike'' \<longrightarrow>
       (\<exists>c bikes t1 returns t2. pb = Some c
          \<and> get_nearby_bikes (latitude tp) (longitude tp) r c t = (Inr bikes, t1)
          \<and> bikes \<noteq> [] \<and> (\<forall>(s, d) \<in> set bikes. has_bikes_available s \<and> d \<le> r)
          \<and> get_nearby_return_stations (latitude dest) (longitude dest) r c t1 = (Inr returns, t2)
          \<and> returns \<noteq> [] \<and> (\<forall>(s, d) \<in> set returns. d \<le> r)))
   \<and> (\<forall>c bikes t1 t2.
         pb = Some c
         \<and> get_nearby_bikes (latitude tp) (longitude tp) r c t = (bikes, t1)
         \<and> get_nearby_return_stations (latitude dest) (longitude dest) r c t1 = (Inr [], t2) \<longrightarrow>
         (\<forall>alt \<in> set (fst (find_alternative_modes_at_transfer tp dest pb es otp r t)).
            alt_mode alt \<noteq> ''publibike''))
   \<and> (\<forall>c scooters t1 t2.
         es = Some c
         \<and> t1 = snd (publibike_alternatives tp dest pb otp r t)
         \<and> get_nearby_scooters (latitude tp) (longitude tp) r c None t1 = (Inr scooters, t2)
         \<and> scooters \<noteq> [] \<longrightarrow>
         (\<forall>(s, d) \<in> set scooters. is_available s)
         \<and> (\<exists>alt \<in> set (fst (find_alternative_modes_at_transfer tp dest pb es otp r t)).
               alt_mode alt = ''e_scooter''
               \<and> (\<exists>info. alt_payload alt = ScooterInfo info
                           \<and> sd_id info = vehicle_id (fst (hd scooters)))))"
proof -
  let ?found = "fst (find_alternative_modes_at_transfer tp dest pb es otp r t)"
  let ?t1 = "snd (publibike_alternatives tp dest pb otp r t)"
  have scooter_part: "alt \<notin> set (fst (escooter_alternatives tp dest es otp r ?t1))"
    if "alt_mode alt = ''publibike''" for alt
    using that escooter_alternatives_mode by fastforce
  have p1: "\<forall>alt \<in> set ?found.
       alt_mode alt = ''publibike'' \<longrightarrow>
       (\<exists>c bikes t1 returns t2. pb = Some c
          \<and> get_nearby_bikes (latitude tp) (longitude tp) r c t = (Inr bikes, t1)
          \<and> bikes \<noteq> [] \<and> (\<forall>(s, d) \<in> set bikes. has_bikes_available s \<and> d \<le> r)
          \<and> get_nearby_return_stations (latitude dest) (longitude dest) r c t1 = (Inr returns, t2)
          \<and> returns \<noteq> [] \<and> (\<forall>(s, d) \<in> set returns. d \<le> r))"
  proof (intro ballI impI)
    fix alt
    assume alt: "alt \<in> set ?found" and m: "alt_mode alt = ''publibike''"
    have "fst (publibike_alternatives tp dest pb otp r t) \<noteq> []"
      using alt scooter_part[OF m] by (auto simp: find_alternative_modes_at_transfer_parts)
    then obtain c bikes t1 returns t2 where f: "pb = Some c"
      "get_nearby_bikes (latitude tp) (longitude tp) r c t = (Inr bikes, t1)" "bikes \<noteq> []"
      "get_nearby_return_stations (latitude dest) (longitude dest) r c t1 = (Inr returns, t2)"
      "returns \<noteq> []"
      using publibike_alternatives_nonempty by blast
    show "\<exists>c bikes t1 returns t2. pb = Some c
          \<and> get_nearby_bikes (latitude tp) (longitude tp) r c t = (Inr bikes, t1)
          \<and> bikes \<noteq> [] \<and> (\<forall>(s, d) \<in> set bikes. has_bikes_available s \<and> d \<le> r)
          \<and> get_nearby_return_stations (latitude dest) (longitude dest) r c t1 = (Inr returns, t2)
          \<and> returns \<noteq> [] \<and> (\<forall>(s, d) \<in> set returns. d \<le> r)"
      using f get_nearby_bikes_result[OF f(2)] get_nearby_return_stations_result[OF f(4)] by blast
  qed
  have p2: "\<forall>c bikes t1 t2.
         pb = Some c
         \<and> get_nearby_bikes (latitude tp) (longitude tp) r c t = (bikes, t1)
         \<and> get_nearby_return_stations (latitude dest) (longitude dest) r c t1 = (Inr [], t2) \<longrightarrow>
         (\<forall>alt \<in> set ?found. alt_mode alt \<noteq> ''publibike'')"
  proof (intro allI impI ballI)
    fix c bikes t1 t2 alt
    assume h: "pb = Some c
         \<and> get_nearby_bikes (latitude tp) (longitude tp) r c t = (bikes, t1)
         \<and> get_nearby_return_stations (latitude dest) (longitude dest) r c t1 = (Inr [], t2)"
      and alt: "alt \<in> set ?found"
    have "fst (publibike_alternatives tp dest pb otp r t) = []"
      using h by (auto simp: publibike_alternatives_def split: sum.splits)
    then have "alt \<in> set (fst (escooter_alternatives tp dest es otp r ?t1))"
      using alt by (simp add: find_alternative_modes_at_transfer_parts)
    then show "alt_mode alt \<noteq> ''publibike''"
      using scooter_part by blast
  qed
  have p3: "\<forall>c scooters t1 t2.
         es = Some c
         \<and> t1 = ?t1
         \<and> get_nearby_scooters (latitude tp) (longitude tp) r c None t1 = (Inr scooters, t2)
         \<and> scooters \<noteq> [] \<longrightarrow>
         (\<forall>(s, d) \<in> set scooters. is_available s)
         \<and> (\<exists>alt \<in> set ?found.
               alt_mode alt = ''e_scooter''
               \<and> (\<exists>info. alt_payload alt = ScooterInfo info
                           \<and> sd_id info = vehicle_id (fst (hd scooters))))"
  proof (intro allI impI)
    fix c scooters t1 t2
    assume h: "es = Some c
         \<and> t1 = ?t1
         \<and> get_nearby_scooters (latitude tp) (longitude tp) r c None t1 = (Inr scooters, t2)
         \<and> scooters \<noteq> []"
    then obtain sc d others where s: "scooters = (sc, d) # others"
      by (cases scooters) auto
    have av: "\<forall>(s, d) \<in> set scooters. is_available s"
      using h get_nearby_scooters_result by blast
    have g: "get_nearby_scooters (latitude tp) (longitude tp) r c None ?t1
               = (Inr ((sc, d) # others), t2)"
      using h s by auto
    have "\<exists>alt \<in> set ?found.
               alt_mode alt = ''e_scooter''
               \<and> (\<exists>info. alt_payload alt = ScooterInfo info
                           \<and> sd_id info = vehicle_id (fst (hd scooters)))"
      using escooter_alternatives_found[OF g, of dest otp] h s
      by (simp add: find_alternative_modes_at_transfer_parts scooter_alternative_def Let_def)
    then show "(\<forall>(s, d) \<in> set scooters. is_available s)
         \<and> (\<exists>alt \<in> set ?found.
               alt_mode alt = ''e_scooter''
               \<and> (\<exists>info. alt_payload alt = ScooterInfo info
                           \<and> sd_id info = vehicle_id (fst (hd scooters))))"
      using av by blast
  qed
  show ?thesis
    by (rule conjI[OF p1 conjI[OF p2 p3]])
qed

theorem bike_needs_return_dock_scooter_does_not_witness:
  "map alt_mode (fst (find_alternative_modes_at_transfer tp_bahnhof tp_office
                        (Some publibike_no_return) (Some voi_up) None 300 0)) = [''e_scooter'']
   \<and> get_nearby_bikes (latitude tp_bahnhof) (longitude tp_bahnhof) 300 publibike_no_return 0
       = (Inr [(station_bahnhof, 0)], 2)
   \<and> get_nearby_return_stations (latitude tp_office) (longitude tp_office) 300
         publibike_no_return 2 = (Inr [], 3)
   \<and> (\<exists>alt \<in> set (fst (find_alternative_modes_at_transfer tp_bahnhof tp_office
                            (Some publibike_no_return) (Some voi_up) None 300 0)).
         alt_mode alt = ''e_scooter''
         \<and> (\<exists>info. alt_payload alt = ScooterInfo info \<and> sd_id info = ''voi-1''))
   \<and> map alt_mode (fst (find_alternative_modes_at_transfer tp_bahnhof tp_office
                          (Some publibike_up) (Some voi_up) None 300 0))
       = [''publibike'', ''e_scooter'']
   \<and> (\<exists>bikes t1 returns t2.
         get_nearby_bikes (latitude tp_bahnhof) (longitude tp_bahnhof) 300 publibike_up 0
           = (Inr bikes, t1) \<and> bikes \<noteq> []
         \<and> get_nearby_return_stations (latitude tp_office) (longitude tp_office) 300
             publibike_up t1 = (Inr returns, t2) \<and> returns \<noteq> [])"
proof -
  let ?none = "find_alternative_modes_at_transfer tp_bahnhof tp_office
                 (Some publibike_no_return) (Some voi_up) None 300 0"
  let ?both = "find_alternative_modes_at_transfer tp_bahnhof tp_office
                 (Some publibike_up) (Some voi_up) None 300 0"
  note thm_none = bike_needs_return_dock_scooter_does_not[of tp_bahnhof tp_office
      "Some publibike_no_return" "Some voi_up" None 300 0]
  note thm_both = bike_needs_return_dock_scooter_does_not[of tp_bahnhof tp_office
      "Some publibike_up" "Some voi_up" None 300 0]
  have sc: "escooter_alternatives tp_bahnhof tp_office (Some voi_up) None 300 t
              = ([scooter_alternative scooter_42 0 10 None 5], t + 1)" for t
    by (simp add: escooter_alternatives_def example_get_nearby_scooters scooter_estimate_def)
  have m: "alt_mode (scooter_alternative scooter_42 0 10 None 5) = ''e_scooter''"
    "alt_mode (bike_alternative station_bahnhof 0 station_office 0 None None) = ''publibike''"
    by (simp_all add: scooter_alternative_def bike_alternative_def Let_def)
  have 1: "map alt_mode (fst ?none) = [''e_scooter'']"
    by (simp add: find_alternative_modes_at_transfer_parts example_publibike_alternatives sc m)
  have 2: "get_nearby_bikes (latitude tp_bahnhof) (longitude tp_bahnhof) 300 publibike_no_return 0
             = (Inr [(station_bahnhof, 0)], 2)"
    using example_get_nearby_bikes(2)[of 0] by simp
  have 3: "get_nearby_return_stations (latitude tp_office) (longitude tp_office) 300
             publibike_no_return 2 = (Inr [], 3)"
    using example_get_nearby_return_stations(2)[of 2] by simp
  have t1: "snd (publibike_alternatives tp_bahnhof tp_office (Some publibike_no_return) None 300 0) = 3"
    by (simp add: example_publibike_alternatives)
  have g: "get_nearby_scooters (latitude tp_bahnhof) (longitude tp_bahnhof) 300 voi_up None 3
             = (Inr [(scooter_42, 0)], 4)"
    using example_get_nearby_scooters(1)[of 3] by simp
  have i: "vehicle_id scooter_42 = ''voi-1''" by (simp add: provider_example_defs)
  have 4: "\<exists>alt \<in> set (fst ?none). alt_mode alt = ''e_scooter''
             \<and> (\<exists>info. alt_payload alt = ScooterInfo info \<and> sd_id info = ''voi-1'')"
    using thm_none t1 g i by fastforce
  have 5: "map alt_mode (fst ?both) = [''publibike'', ''e_scooter'']"
    by (simp add: find_alternative_modes_at_transfer_parts example_publibike_alternatives sc m)
  have "bike_alternative station_bahnhof 0 station_office 0 None None \<in> set (fst ?both)"
    by (simp add: find_alternative_modes_at_transfer_parts example_publibike_alternatives sc)
  then have 6: "\<exists>bikes t1 returns t2.
         get_nearby_bikes (latitude tp_bahnhof) (longitude tp_bahnhof) 300 publibike_up 0
           = (Inr bikes, t1) \<and> bikes \<noteq> []
         \<and> get_nearby_return_stations (latitude tp_office) (longitude tp_office) 300
             publibike_up t1 = (Inr returns, t2) \<and> returns \<noteq> []"
    using thm_both m(2) by fastforce
  show ?thesis using 1 2 3 4 5 6 by blast
qed

section \<open>The orchestrator\<close>





lemma make_segment_fresh:
  "alternatives (make_segment ls tps i n) = []"
  "\<not> alternatives_available (make_segment ls tps i n)"
  by (simp_all add: make_segment_def Let_def)

lemma segment_loop_fresh:
  "list_all (\<lambda>p. alternatives (snd p) = [] \<and> \<not> alternatives_available (snd p)) acc \<Longrightarrow>
   list_all (\<lambda>p. alternatives (snd p) = [] \<and> \<not> alternatives_available (snd p))
     (segment_loop legs tps rest css tidx acc)"
proof (induction rest arbitrary: css tidx acc)
  case Nil
  then show ?case by simp
next
  case (Cons x rest)
  obtain k l where x: "x = (k, l)" by (cases x)
  show ?case
  proof (cases "tidx < length tps \<and> ends_at l (tps ! tidx)")
    case True
    let ?acc = "acc @ [((css, k + 1), make_segment (slice legs css (k + 1)) tps tidx (length acc))]"
    have "list_all (\<lambda>p. alternatives (snd p) = [] \<and> \<not> alternatives_available (snd p)) ?acc"
      using Cons.prems by (simp add: make_segment_fresh)
    then have "list_all (\<lambda>p. alternatives (snd p) = [] \<and> \<not> alternatives_available (snd p))
                 (segment_loop legs tps rest (k + 1) (tidx + 1) ?acc)"
      by (rule Cons.IH)
    then show ?thesis using True unfolding x by simp
  next
    case False
    have "list_all (\<lambda>p. alternatives (snd p) = [] \<and> \<not> alternatives_available (snd p))
            (segment_loop legs tps rest css tidx acc)"
      using Cons.prems by (rule Cons.IH)
    then show ?thesis using False unfolding x by auto
  qed
qed

lemma create_route_segments_fresh:
  "list_all (\<lambda>s. alternatives s = [] \<and> \<not> alternatives_available s) (create_route_segments it tps)"
proof -
  have "list_all (\<lambda>p. alternatives (snd p) = [] \<and> \<not> alternatives_available (snd p))
          (create_route_segments_spans it tps)"
    using segment_loop_fresh[of "[]"]
    by (simp add: create_route_segments_spans_def Let_def)
  then show ?thesis
    by (simp add: create_route_segments_def list_all_iff)
qed








end
